theory Spec2Isabelle
  imports Main "HOL-Library.Word"
begin

section \<open>Image-source resolution of the STM32MP1 second-stage loader\<close>

text \<open>
  A shallow embedding of \<^verbatim>\<open>plat/st/stm32mp1/bl2_io_storage.c\<close>: the static policy table,
  the three availability checks, \<^verbatim>\<open>print_boot_device\<close>, \<^verbatim>\<open>stm32mp1_io_setup\<close> and
  \<^verbatim>\<open>plat_get_image_source\<close>.

  The file calls into the IO framework, the SDMMC driver and the partition parser, and it
  uses macros and struct declarations of headers that are not part of the sources at hand.
  All of these are parameters of the model (the record \<open>env\<close>): nothing is assumed about
  what a driver returns or about the numeric value of a macro.
\<close>

subsection \<open>C types\<close>

text \<open>
  \<^verbatim>\<open>uintptr_t\<close> is a 32-bit word (the platform is AArch32). An \<^verbatim>\<open>int\<close> result code is
  only ever compared with 0 and handed on, so its 32 bits are kept as a word.
\<close>

type_synonym uintptr_t = "32 word"
type_synonym c_int = "32 word"

text \<open>
  The static objects whose addresses the file takes. Their addresses are fixed by the
  linker and enter the model through \<open>addr_of\<close>.
\<close>

datatype object =
    Bl2_block_spec
  | Bl32_block_spec
  | Bl33_partition_spec
  | Gpt_block_spec
  | Stm32image_block_spec
  | Mmc_block_dev_spec
  | Stm32image_dev_info_spec

text \<open>Pointers to the three handle variables and to the three connector variables.\<close>

datatype handle_ptr = Ptr_dummy_dev_handle | Ptr_image_dev_handle | Ptr_storage_dev_handle

datatype con_ptr = Ptr_dummy_dev_con | Ptr_mmc_dev_con | Ptr_stm32image_dev_con

text \<open>The three functions a policy entry's \<^verbatim>\<open>check\<close> pointer can hold.\<close>

datatype check_fn = Open_dummy | Open_image | Open_storage

text \<open>\<^verbatim>\<open>struct plat_io_policy\<close>; \<open>None\<close> is the null pointer.\<close>

record plat_io_policy =
  dev_handle :: "handle_ptr option"
  image_spec :: uintptr_t
  check :: "check_fn option"

text \<open>The fields of \<^verbatim>\<open>boot_api_context_t\<close> that the file reads.\<close>

record boot_api_context =
  boot_interface_selected :: "16 word"
  boot_interface_instance :: "16 word"
  boot_partition_used_toboot :: "32 word"

datatype mmc_dev_type = MMC_IS_EMMC | MMC_IS_SD

text \<open>
  \<^verbatim>\<open>struct stm32_sdmmc2_params\<close> after the \<^verbatim>\<open>memset\<close>: the register base and the device
  information it points to, of which only the device type is set.
\<close>

record stm32_sdmmc2_params =
  reg_base :: uintptr_t
  device_info :: mmc_dev_type

text \<open>\<^verbatim>\<open>partition_entry_t\<close>, as far as the file reads it, with the entry's name.\<close>

record partition_entry =
  entry_name :: string
  start :: nat

text \<open>\<^verbatim>\<open>struct stm32image_part_info\<close> and \<^verbatim>\<open>struct stm32image_device_info\<close>.\<close>

record stm32image_part_info =
  name :: string
  binary_type :: "32 word"
  part_offset :: nat
  bkp_offset :: "32 word"

record stm32image_device_info =
  part_info :: "stm32image_part_info list"
  device_size :: nat
  lba_size :: nat

subsection \<open>Observable events\<close>

text \<open>
  Every call that leaves the file and every log statement that is reached is recorded, in
  order, with the arguments passed and the result obtained. Log messages are recorded by
  their format string, without the trailing newline and without the formatted arguments.
\<close>

datatype event =
    Log_INFO string
  | Log_WARN string
  | Log_ERROR string
  | Ev_dmbsy
  | Ev_register_io_dev_dummy c_int
  | Ev_register_io_dev_block c_int
  | Ev_register_io_dev_mmc c_int
  | Ev_register_io_dev_stm32image c_int
  | Ev_io_dev_open uintptr_t uintptr_t handle_ptr c_int "uintptr_t option"
  | Ev_io_dev_close uintptr_t c_int
  | Ev_io_dev_init uintptr_t uintptr_t c_int
  | Ev_stm32_sdmmc2_mmc_init stm32_sdmmc2_params c_int
  | Ev_partition_init nat
  | Ev_stm32_sdmmc2_mmc_get_device_size nat
  | Ev_get_partition_entry string "partition_entry option"

subsection \<open>What the file takes from outside\<close>

text \<open>
  Macros of absent headers, link-time addresses and the external functions. An external
  function works on a state of its own, \<open>'w\<close>, which the file cannot see: it takes the
  arguments of the C call and that state, and returns the C result and the new state. A
  function that is handed a pointer to write through (\<^verbatim>\<open>register_io_dev_*\<close>,
  \<^verbatim>\<open>io_dev_open\<close>) returns what it wrote there, \<open>None\<close> if it left the location alone:
  the location then keeps the value it had.

  \<open>part_offset_bits\<close> is the width of the field \<^verbatim>\<open>part_offset\<close>, whose declaration is
  absent: the assignment \<^verbatim>\<open>part->part_offset = entry->start\<close> converts to that width.
\<close>

record 'w env =
  BL2_IMAGE_ID :: nat
  BL32_IMAGE_ID :: nat
  BL33_IMAGE_ID :: nat
  GPT_IMAGE_ID :: nat
  STM32_IMAGE_ID :: nat
  BOOT_API_CTX_BOOT_INTERFACE_SEL_FLASH_SD :: "16 word"
  BOOT_API_CTX_BOOT_INTERFACE_SEL_FLASH_EMMC :: "16 word"
  STM32MP1_SDMMC1_BASE :: uintptr_t
  STM32MP1_SDMMC2_BASE :: uintptr_t
  STM32MP1_SDMMC3_BASE :: uintptr_t
  BL33_IMAGE_NAME :: string
  BL33_BINARY_TYPE :: "32 word"
  MMC_BLOCK_SIZE :: nat
  part_offset_bits :: nat
  addr_of :: "object \<Rightarrow> uintptr_t"
  register_io_dev_dummy :: "'w \<Rightarrow> (c_int \<times> uintptr_t option) \<times> 'w"
  register_io_dev_block :: "'w \<Rightarrow> (c_int \<times> uintptr_t option) \<times> 'w"
  register_io_dev_mmc :: "'w \<Rightarrow> (c_int \<times> uintptr_t option) \<times> 'w"
  register_io_dev_stm32image :: "'w \<Rightarrow> (c_int \<times> uintptr_t option) \<times> 'w"
  io_dev_open :: "uintptr_t \<Rightarrow> uintptr_t \<Rightarrow> 'w \<Rightarrow> (c_int \<times> uintptr_t option) \<times> 'w"
  io_dev_close :: "uintptr_t \<Rightarrow> 'w \<Rightarrow> c_int \<times> 'w"
  io_dev_init :: "uintptr_t \<Rightarrow> uintptr_t \<Rightarrow> 'w \<Rightarrow> c_int \<times> 'w"
  stm32_sdmmc2_mmc_init :: "stm32_sdmmc2_params \<Rightarrow> 'w \<Rightarrow> c_int \<times> 'w"
  partition_init :: "nat \<Rightarrow> 'w \<Rightarrow> 'w"
  stm32_sdmmc2_mmc_get_device_size :: "'w \<Rightarrow> nat \<times> 'w"
  get_partition_entry :: "string \<Rightarrow> 'w \<Rightarrow> partition_entry option \<times> 'w"

subsection \<open>The file's own state\<close>

text \<open>
  The mutable file-scope variables, the state of the external world and the events so far.
\<close>

record 'w state =
  dummy_dev_con :: uintptr_t
  dummy_dev_handle :: uintptr_t
  image_dev_handle :: uintptr_t
  storage_dev_handle :: uintptr_t
  mmc_dev_con :: uintptr_t
  stm32image_dev_con :: uintptr_t
  stm32image_dev_info_spec :: stm32image_device_info
  world :: 'w
  trace :: "event list"

text \<open>\<^verbatim>\<open>static uintptr_t dummy_dev_spec\<close> is never written: it keeps its initial value 0.\<close>

definition dummy_dev_spec :: uintptr_t where
  "dummy_dev_spec = 0"

text \<open>\<^verbatim>\<open>enum { IMG_IDX_BL33, IMG_IDX_NUM }\<close>\<close>

definition IMG_IDX_BL33 :: nat where
  "IMG_IDX_BL33 = 0"

definition IMG_IDX_NUM :: nat where
  "IMG_IDX_NUM = 1"

text \<open>
  The state before \<^verbatim>\<open>stm32mp1_io_setup\<close>: the static initialisers, zero where there is
  none. \<^verbatim>\<open>part_info\<close> is shown up to its last initialised element, the one at
  \<^verbatim>\<open>IMG_IDX_BL33\<close>.
\<close>

definition initial_state :: "'w env \<Rightarrow> 'w \<Rightarrow> 'w state" where
  "initial_state E w =
     \<lparr> dummy_dev_con = 0, dummy_dev_handle = 0, image_dev_handle = 0,
       storage_dev_handle = 0, mmc_dev_con = 0, stm32image_dev_con = 0,
       stm32image_dev_info_spec =
         \<lparr> part_info = [\<lparr> name = BL33_IMAGE_NAME E, binary_type = BL33_BINARY_TYPE E,
                          part_offset = 0, bkp_offset = 0 \<rparr>],
           device_size = 0,
           lba_size = MMC_BLOCK_SIZE E \<rparr>,
       world = w, trace = [] \<rparr>"

fun read_handle :: "handle_ptr \<Rightarrow> 'w state \<Rightarrow> uintptr_t" where
  "read_handle Ptr_dummy_dev_handle s = dummy_dev_handle s"
| "read_handle Ptr_image_dev_handle s = image_dev_handle s"
| "read_handle Ptr_storage_dev_handle s = storage_dev_handle s"

fun write_handle :: "handle_ptr \<Rightarrow> uintptr_t \<Rightarrow> 'w state \<Rightarrow> 'w state" where
  "write_handle Ptr_dummy_dev_handle v s = s\<lparr>dummy_dev_handle := v\<rparr>"
| "write_handle Ptr_image_dev_handle v s = s\<lparr>image_dev_handle := v\<rparr>"
| "write_handle Ptr_storage_dev_handle v s = s\<lparr>storage_dev_handle := v\<rparr>"

fun read_con :: "con_ptr \<Rightarrow> 'w state \<Rightarrow> uintptr_t" where
  "read_con Ptr_dummy_dev_con s = dummy_dev_con s"
| "read_con Ptr_mmc_dev_con s = mmc_dev_con s"
| "read_con Ptr_stm32image_dev_con s = stm32image_dev_con s"

fun write_con :: "con_ptr \<Rightarrow> uintptr_t \<Rightarrow> 'w state \<Rightarrow> 'w state" where
  "write_con Ptr_dummy_dev_con v s = s\<lparr>dummy_dev_con := v\<rparr>"
| "write_con Ptr_mmc_dev_con v s = s\<lparr>mmc_dev_con := v\<rparr>"
| "write_con Ptr_stm32image_dev_con v s = s\<lparr>stm32image_dev_con := v\<rparr>"

subsection \<open>Control: returning, halting, sequencing\<close>

text \<open>
  A C function of the file is a function from the state to an outcome and the state it
  leaves. It either returns a value or does not return: \<^verbatim>\<open>panic()\<close>, a failed
  \<^verbatim>\<open>assert\<close> (assertions are modelled as compiled in), or undefined behaviour that the
  file itself commits (a call through a null function pointer, an index past the end of an
  array).
\<close>

datatype halt = Panic | Assert_failed | Undefined_behaviour

type_synonym ('w, 'a) prog = "'w state \<Rightarrow> (halt + 'a) \<times> 'w state"

definition ret :: "'a \<Rightarrow> ('w, 'a) prog" where
  "ret x = (\<lambda>s. (Inr x, s))"

definition stop :: "halt \<Rightarrow> ('w, 'a) prog" where
  "stop h = (\<lambda>s. (Inl h, s))"

definition bind :: "('w, 'a) prog \<Rightarrow> ('a \<Rightarrow> ('w, 'b) prog) \<Rightarrow> ('w, 'b) prog" where
  "bind m f = (\<lambda>s. case m s of (Inl h, s') \<Rightarrow> (Inl h, s') | (Inr x, s') \<Rightarrow> f x s')"

definition seq :: "('w, unit) prog \<Rightarrow> ('w, 'b) prog \<Rightarrow> ('w, 'b) prog" where
  "seq m n = bind m (\<lambda>_. n)"

definition panic :: "('w, 'a) prog" where
  "panic = stop Panic"

definition c_assert :: "bool \<Rightarrow> ('w, unit) prog" where
  "c_assert b = (if b then ret () else stop Assert_failed)"

definition emit :: "event \<Rightarrow> ('w, unit) prog" where
  "emit e = (\<lambda>s. (Inr (), s\<lparr>trace := trace s @ [e]\<rparr>))"

subsection \<open>Calls that leave the file\<close>

definition call_register ::
  "('w \<Rightarrow> (c_int \<times> uintptr_t option) \<times> 'w) \<Rightarrow> (c_int \<Rightarrow> event) \<Rightarrow> con_ptr \<Rightarrow> ('w, c_int) prog"
where
  "call_register f ev p = (\<lambda>s.
     case f (world s) of ((rc, written), w') \<Rightarrow>
       (Inr rc,
        write_con p (case written of None \<Rightarrow> read_con p s | Some c \<Rightarrow> c)
          (s\<lparr>world := w', trace := trace s @ [ev rc]\<rparr>)))"

definition call_io_dev_open ::
  "'w env \<Rightarrow> uintptr_t \<Rightarrow> uintptr_t \<Rightarrow> handle_ptr \<Rightarrow> ('w, c_int) prog"
where
  "call_io_dev_open E con spec p = (\<lambda>s.
     case io_dev_open E con spec (world s) of ((rc, written), w') \<Rightarrow>
       (Inr rc,
        write_handle p (case written of None \<Rightarrow> read_handle p s | Some h \<Rightarrow> h)
          (s\<lparr>world := w', trace := trace s @ [Ev_io_dev_open con spec p rc written]\<rparr>)))"

definition call_io_dev_close :: "'w env \<Rightarrow> uintptr_t \<Rightarrow> ('w, c_int) prog" where
  "call_io_dev_close E h = (\<lambda>s.
     case io_dev_close E h (world s) of (rc, w') \<Rightarrow>
       (Inr rc, s\<lparr>world := w', trace := trace s @ [Ev_io_dev_close h rc]\<rparr>))"

definition call_io_dev_init :: "'w env \<Rightarrow> uintptr_t \<Rightarrow> uintptr_t \<Rightarrow> ('w, c_int) prog" where
  "call_io_dev_init E h init_params = (\<lambda>s.
     case io_dev_init E h init_params (world s) of (rc, w') \<Rightarrow>
       (Inr rc, s\<lparr>world := w', trace := trace s @ [Ev_io_dev_init h init_params rc]\<rparr>))"

definition call_stm32_sdmmc2_mmc_init :: "'w env \<Rightarrow> stm32_sdmmc2_params \<Rightarrow> ('w, c_int) prog" where
  "call_stm32_sdmmc2_mmc_init E params = (\<lambda>s.
     case stm32_sdmmc2_mmc_init E params (world s) of (rc, w') \<Rightarrow>
       (Inr rc, s\<lparr>world := w', trace := trace s @ [Ev_stm32_sdmmc2_mmc_init params rc]\<rparr>))"

definition call_partition_init :: "'w env \<Rightarrow> nat \<Rightarrow> ('w, unit) prog" where
  "call_partition_init E image_id = (\<lambda>s.
     (Inr (), s\<lparr>world := partition_init E image_id (world s),
                trace := trace s @ [Ev_partition_init image_id]\<rparr>))"

definition call_stm32_sdmmc2_mmc_get_device_size :: "'w env \<Rightarrow> ('w, nat) prog" where
  "call_stm32_sdmmc2_mmc_get_device_size E = (\<lambda>s.
     case stm32_sdmmc2_mmc_get_device_size E (world s) of (n, w') \<Rightarrow>
       (Inr n, s\<lparr>world := w', trace := trace s @ [Ev_stm32_sdmmc2_mmc_get_device_size n]\<rparr>))"

definition call_get_partition_entry :: "'w env \<Rightarrow> string \<Rightarrow> ('w, partition_entry option) prog" where
  "call_get_partition_entry E nm = (\<lambda>s.
     case get_partition_entry E nm (world s) of (r, w') \<Rightarrow>
       (Inr r, s\<lparr>world := w', trace := trace s @ [Ev_get_partition_entry nm r]\<rparr>))"

subsection \<open>The policy table and its checks\<close>

text \<open>
  \<^verbatim>\<open>policies[]\<close> is built by designated initialisers: the array reaches up to the largest
  index named, an element that no initialiser names is zero (null pointers), and a later
  initialiser of an index replaces an earlier one.
\<close>

definition zero_policy :: plat_io_policy where
  "zero_policy = \<lparr> dev_handle = None, image_spec = 0, check = None \<rparr>"

definition policy_initialisers :: "'w env \<Rightarrow> (nat \<times> plat_io_policy) list" where
  "policy_initialisers E =
     [ (BL2_IMAGE_ID E,
          \<lparr> dev_handle = Some Ptr_dummy_dev_handle,
            image_spec = addr_of E Bl2_block_spec,
            check = Some Open_dummy \<rparr>),
       (BL32_IMAGE_ID E,
          \<lparr> dev_handle = Some Ptr_dummy_dev_handle,
            image_spec = addr_of E Bl32_block_spec,
            check = Some Open_dummy \<rparr>),
       (BL33_IMAGE_ID E,
          \<lparr> dev_handle = Some Ptr_image_dev_handle,
            image_spec = addr_of E Bl33_partition_spec,
            check = Some Open_image \<rparr>),
       (GPT_IMAGE_ID E,
          \<lparr> dev_handle = Some Ptr_storage_dev_handle,
            image_spec = addr_of E Gpt_block_spec,
            check = Some Open_storage \<rparr>),
       (STM32_IMAGE_ID E,
          \<lparr> dev_handle = Some Ptr_storage_dev_handle,
            image_spec = addr_of E Stm32image_block_spec,
            check = Some Open_storage \<rparr>) ]"

definition policies :: "'w env \<Rightarrow> plat_io_policy list" where
  "policies E =
     fold (\<lambda>(i, p) t. t[i := p]) (policy_initialisers E)
       (replicate (Suc (fold max (map fst (policy_initialisers E)) 0)) zero_policy)"

definition ARRAY_SIZE :: "'a list \<Rightarrow> nat" where
  "ARRAY_SIZE a = length a"

definition open_dummy :: "'w env \<Rightarrow> uintptr_t \<Rightarrow> ('w, c_int) prog" where
  "open_dummy E spec = (\<lambda>s. call_io_dev_init E (dummy_dev_handle s) 0 s)"

definition open_image :: "'w env \<Rightarrow> uintptr_t \<Rightarrow> ('w, c_int) prog" where
  "open_image E spec = (\<lambda>s. call_io_dev_init E (image_dev_handle s) 0 s)"

definition open_storage :: "'w env \<Rightarrow> uintptr_t \<Rightarrow> ('w, c_int) prog" where
  "open_storage E spec = (\<lambda>s. call_io_dev_init E (storage_dev_handle s) 0 s)"

text \<open>A call through a \<^verbatim>\<open>check\<close> pointer; through a null pointer it is undefined.\<close>

fun call_check :: "'w env \<Rightarrow> check_fn option \<Rightarrow> uintptr_t \<Rightarrow> ('w, c_int) prog" where
  "call_check E None spec = stop Undefined_behaviour"
| "call_check E (Some Open_dummy) spec = open_dummy E spec"
| "call_check E (Some Open_image) spec = open_image E spec"
| "call_check E (Some Open_storage) spec = open_storage E spec"

text \<open>Reading through a \<^verbatim>\<open>dev_handle\<close> pointer; through a null pointer it is undefined.\<close>

fun deref_handle :: "handle_ptr option \<Rightarrow> ('w, uintptr_t) prog" where
  "deref_handle None = stop Undefined_behaviour"
| "deref_handle (Some p) = (\<lambda>s. (Inr (read_handle p s), s))"

subsection \<open>\<^verbatim>\<open>plat_get_image_source\<close>\<close>

text \<open>
  The two output locations \<^verbatim>\<open>*dev_handle\<close> and \<^verbatim>\<open>*image_spec\<close> are distinct objects of the
  caller. The function takes their contents at the call and returns, next to the result
  code, their contents at the return.
\<close>

definition plat_get_image_source ::
  "'w env \<Rightarrow> nat \<Rightarrow> uintptr_t \<Rightarrow> uintptr_t \<Rightarrow> ('w, c_int \<times> uintptr_t \<times> uintptr_t) prog"
where
  "plat_get_image_source E image_id out_dev_handle out_image_spec =
     bind (c_assert (image_id < ARRAY_SIZE (policies E))) (\<lambda>_.
       let policy = policies E ! image_id in
       bind (call_check E (check policy) (image_spec policy)) (\<lambda>rc.
         if rc = 0 then
           bind (deref_handle (dev_handle policy)) (\<lambda>h.
             ret (rc, h, image_spec policy))
         else
           ret (rc, out_dev_handle, out_image_spec)))"

subsection \<open>\<^verbatim>\<open>print_boot_device\<close>\<close>

definition print_boot_device :: "'w env \<Rightarrow> boot_api_context \<Rightarrow> ('w, unit) prog" where
  "print_boot_device E boot_context =
     seq (if boot_interface_selected boot_context = BOOT_API_CTX_BOOT_INTERFACE_SEL_FLASH_SD E
          then emit (Log_INFO ''Using SDMMC'')
          else if boot_interface_selected boot_context =
                    BOOT_API_CTX_BOOT_INTERFACE_SEL_FLASH_EMMC E
          then emit (Log_INFO ''Using EMMC'')
          else seq (emit (Log_ERROR ''Boot interface not found'')) panic)
       (if boot_interface_instance boot_context \<noteq> 0
        then emit (Log_INFO ''  Instance %d'')
        else ret ())"

subsection \<open>\<^verbatim>\<open>stm32mp1_io_setup\<close>\<close>

text \<open>
  The body of the loop over \<^verbatim>\<open>part_info\<close> (lines 255 to 264). The assignment to
  \<^verbatim>\<open>part_offset\<close> converts the entry's start to the width of that field.
\<close>

definition set_part_offsets :: "nat \<Rightarrow> nat \<Rightarrow> 'w state \<Rightarrow> 'w state" where
  "set_part_offsets idx off s =
     s\<lparr>stm32image_dev_info_spec :=
         (stm32image_dev_info_spec s)
           \<lparr>part_info :=
              (part_info (stm32image_dev_info_spec s))
                [idx := (part_info (stm32image_dev_info_spec s) ! idx)
                          \<lparr>part_offset := off, bkp_offset := 0\<rparr>]\<rparr>\<rparr>"

definition part_info_step :: "'w env \<Rightarrow> nat \<Rightarrow> ('w, unit) prog" where
  "part_info_step E idx = (\<lambda>s.
     if length (part_info (stm32image_dev_info_spec s)) \<le> idx
     then stop Undefined_behaviour s
     else
       bind (call_get_partition_entry E (name (part_info (stm32image_dev_info_spec s) ! idx)))
         (\<lambda>entry.
            case entry of
              None \<Rightarrow> seq (emit (Log_ERROR ''Partition %s not found'')) panic
            | Some e \<Rightarrow>
                (\<lambda>s'. (Inr (), set_part_offsets idx (start e mod 2 ^ part_offset_bits E) s')))
         s)"

text \<open>\<^verbatim>\<open>for (idx = 0U; idx < IMG_IDX_NUM; idx++)\<close>\<close>

function part_info_loop :: "'w env \<Rightarrow> nat \<Rightarrow> ('w, unit) prog" where
  "part_info_loop E idx s =
     (if idx < IMG_IDX_NUM then
        (case part_info_step E idx s of
           (Inl h, s') \<Rightarrow> (Inl h, s')
         | (Inr _, s') \<Rightarrow> part_info_loop E (Suc idx) s')
      else (Inr (), s))"
  by pat_completeness auto
termination
  by (relation "measure (\<lambda>(E, idx, s). IMG_IDX_NUM - idx)") auto

declare part_info_loop.simps [simp del]

text \<open>
  The body of \<^verbatim>\<open>case BOOT_API_CTX_BOOT_INTERFACE_SEL_FLASH_SD\<close> and
  \<^verbatim>\<open>case BOOT_API_CTX_BOOT_INTERFACE_SEL_FLASH_EMMC\<close> (lines 199 to 284).
  \<^verbatim>\<open>partition_init\<close> is the partition parser's: what it reads and how is its own affair.
  Should it come back into this file to resolve the image it is given, it finds only
  \<^verbatim>\<open>plat_get_image_source\<close> and the checks, which read the variables of the file and write
  none of them.
\<close>

definition io_setup_flash :: "'w env \<Rightarrow> boot_api_context \<Rightarrow> ('w, unit) prog" where
  "io_setup_flash E boot_context =
     seq (emit Ev_dmbsy)
    (let (dev_type, mmc_default_instance) =
           (if boot_interface_selected boot_context =
                 BOOT_API_CTX_BOOT_INTERFACE_SEL_FLASH_EMMC E
            then (MMC_IS_EMMC, STM32MP1_SDMMC2_BASE E)
            else (MMC_IS_SD, STM32MP1_SDMMC1_BASE E)) in
     bind (if boot_interface_instance boot_context = 1 then ret (STM32MP1_SDMMC1_BASE E)
           else if boot_interface_instance boot_context = 2 then ret (STM32MP1_SDMMC2_BASE E)
           else if boot_interface_instance boot_context = 3 then ret (STM32MP1_SDMMC3_BASE E)
           else seq (emit (Log_WARN ''SDMMC instance not found, using default''))
                    (ret mmc_default_instance)) (\<lambda>base.
     bind (call_stm32_sdmmc2_mmc_init E \<lparr> reg_base = base, device_info = dev_type \<rparr>) (\<lambda>rc.
     seq (if rc \<noteq> 0 then seq (emit (Log_ERROR ''SDMMC%u init failed'')) panic else ret ())
    (bind (call_register (register_io_dev_block E) Ev_register_io_dev_block Ptr_mmc_dev_con)
       (\<lambda>io_result.
     seq (if io_result \<noteq> 0 then panic else ret ())
    (bind (\<lambda>s. call_io_dev_open E (mmc_dev_con s) (addr_of E Mmc_block_dev_spec)
                  Ptr_storage_dev_handle s) (\<lambda>io_result.
     seq (c_assert (io_result = 0))
    (seq (call_partition_init E (GPT_IMAGE_ID E))
    (bind (\<lambda>s. call_io_dev_close E (storage_dev_handle s) s) (\<lambda>io_result.
     seq (c_assert (io_result = 0))
    (bind (call_stm32_sdmmc2_mmc_get_device_size E) (\<lambda>n.
     seq (\<lambda>s. (Inr (), s\<lparr>stm32image_dev_info_spec :=
                            (stm32image_dev_info_spec s)\<lparr>device_size := n\<rparr>\<rparr>))
    (seq (part_info_loop E 0)
    (bind (call_register (register_io_dev_mmc E) Ev_register_io_dev_mmc Ptr_mmc_dev_con)
       (\<lambda>io_result.
     seq (c_assert (io_result = 0))
    (bind (\<lambda>s. call_io_dev_open E (mmc_dev_con s) 0 Ptr_storage_dev_handle s) (\<lambda>io_result.
     seq (c_assert (io_result = 0))
    (bind (call_register (register_io_dev_stm32image E) Ev_register_io_dev_stm32image
             Ptr_stm32image_dev_con) (\<lambda>io_result.
     seq (c_assert (io_result = 0))
    (bind (\<lambda>s. call_io_dev_open E (stm32image_dev_con s) (addr_of E Stm32image_dev_info_spec)
                  Ptr_image_dev_handle s) (\<lambda>io_result.
     c_assert (io_result = 0))))))))))))))))))))))"

text \<open>
  The boot context is what \<^verbatim>\<open>stm32mp1_get_boot_ctx_address()\<close> points to: an input.
\<close>

definition stm32mp1_io_setup :: "'w env \<Rightarrow> boot_api_context \<Rightarrow> ('w, unit) prog" where
  "stm32mp1_io_setup E boot_context =
     seq (print_boot_device E boot_context)
    (seq (if boot_partition_used_toboot boot_context = 1 \<or>
             boot_partition_used_toboot boot_context = 2
          then emit (Log_INFO ''Boot used partition fsbl%d'')
          else ret ())
    (bind (call_register (register_io_dev_dummy E) Ev_register_io_dev_dummy Ptr_dummy_dev_con)
       (\<lambda>io_result.
     seq (c_assert (io_result = 0))
    (bind (\<lambda>s. call_io_dev_open E (dummy_dev_con s) dummy_dev_spec Ptr_dummy_dev_handle s)
       (\<lambda>io_result.
     seq (c_assert (io_result = 0))
    (if boot_interface_selected boot_context = BOOT_API_CTX_BOOT_INTERFACE_SEL_FLASH_SD E \<or>
        boot_interface_selected boot_context = BOOT_API_CTX_BOOT_INTERFACE_SEL_FLASH_EMMC E
     then io_setup_flash E boot_context
     else emit (Log_ERROR ''Boot interface %d not supported'')))))))"

subsection \<open>A test harness with a fake peripheral\<close>

text \<open>
  A concrete environment on which the theorems below are exercised. Its external state is
  the partition table discovered so far: empty until \<^verbatim>\<open>partition_init\<close> has run, then the
  table \<open>tbl\<close> of the medium. Registration and opening always succeed; a device answers
  \<^verbatim>\<open>io_dev_init\<close> with 0 if its handle is not null and with \<open>-ENODEV\<close> otherwise. The
  numeric values of the macros are examples.
\<close>

fun harness_addr_of :: "object \<Rightarrow> uintptr_t" where
  "harness_addr_of Bl2_block_spec = 0x2FFC0000"
| "harness_addr_of Bl32_block_spec = 0x2FFC0008"
| "harness_addr_of Bl33_partition_spec = 0x2FFC0010"
| "harness_addr_of Gpt_block_spec = 0x2FFC0040"
| "harness_addr_of Stm32image_block_spec = 0x2FFC0048"
| "harness_addr_of Mmc_block_dev_spec = 0x2FFC0050"
| "harness_addr_of Stm32image_dev_info_spec = 0x2FFC0080"

definition harness :: "string \<Rightarrow> partition_entry list \<Rightarrow> (partition_entry list) env" where
  "harness image_name tbl =
     \<lparr> BL2_IMAGE_ID = 1, BL32_IMAGE_ID = 4, BL33_IMAGE_ID = 5,
       GPT_IMAGE_ID = 28, STM32_IMAGE_ID = 29,
       BOOT_API_CTX_BOOT_INTERFACE_SEL_FLASH_SD = 1,
       BOOT_API_CTX_BOOT_INTERFACE_SEL_FLASH_EMMC = 2,
       STM32MP1_SDMMC1_BASE = 0x58005000,
       STM32MP1_SDMMC2_BASE = 0x58007000,
       STM32MP1_SDMMC3_BASE = 0x48004000,
       BL33_IMAGE_NAME = image_name,
       BL33_BINARY_TYPE = 0,
       MMC_BLOCK_SIZE = 512,
       part_offset_bits = 32,
       addr_of = harness_addr_of,
       register_io_dev_dummy = (\<lambda>w. ((0, Some 0x100), w)),
       register_io_dev_block = (\<lambda>w. ((0, Some 0x200), w)),
       register_io_dev_mmc = (\<lambda>w. ((0, Some 0x300), w)),
       register_io_dev_stm32image = (\<lambda>w. ((0, Some 0x400), w)),
       io_dev_open = (\<lambda>con spec w. ((0, Some (con + 1)), w)),
       io_dev_close = (\<lambda>h w. (0, w)),
       io_dev_init = (\<lambda>h init_params w. (if h = 0 then - 19 else 0, w)),
       stm32_sdmmc2_mmc_init = (\<lambda>params w. (0, w)),
       partition_init = (\<lambda>image_id w. tbl),
       stm32_sdmmc2_mmc_get_device_size = (\<lambda>w. (2 ^ 33, w)),
       get_partition_entry = (\<lambda>nm w. (find (\<lambda>e. entry_name e = nm) w, w)) \<rparr>"

definition harness_table :: "partition_entry list" where
  "harness_table =
     [ \<lparr> entry_name = ''A'', start = 100 \<rparr>, \<lparr> entry_name = ''B'', start = 500 \<rparr> ]"

definition sd_instance_1 :: boot_api_context where
  "sd_instance_1 =
     \<lparr> boot_interface_selected = 1, boot_interface_instance = 1,
       boot_partition_used_toboot = 1 \<rparr>"

definition emmc_instance_0 :: boot_api_context where
  "emmc_instance_0 =
     \<lparr> boot_interface_selected = 2, boot_interface_instance = 0,
       boot_partition_used_toboot = 0 \<rparr>"

definition unknown_interface :: boot_api_context where
  "unknown_interface =
     \<lparr> boot_interface_selected = 3, boot_interface_instance = 0,
       boot_partition_used_toboot = 0 \<rparr>"

definition harness_A :: "(partition_entry list) env" where
  "harness_A = harness ''A'' harness_table"

definition harness_C :: "(partition_entry list) env" where
  "harness_C = harness ''C'' harness_table"

text \<open>The state the harness is in after a boot from SD card, instance 1, image \<open>A\<close>.\<close>

definition booted :: "(partition_entry list) state" where
  "booted =
     \<lparr> dummy_dev_con = 0x100, dummy_dev_handle = 0x101, image_dev_handle = 0x401,
       storage_dev_handle = 0x301, mmc_dev_con = 0x300, stm32image_dev_con = 0x400,
       stm32image_dev_info_spec =
         \<lparr> part_info = [\<lparr> name = ''A'', binary_type = 0, part_offset = 100, bkp_offset = 0 \<rparr>],
           device_size = 2 ^ 33, lba_size = 512 \<rparr>,
       world = harness_table,
       trace =
         [ Log_INFO ''Using SDMMC'', Log_INFO ''  Instance %d'',
           Log_INFO ''Boot used partition fsbl%d'',
           Ev_register_io_dev_dummy 0,
           Ev_io_dev_open 0x100 0 Ptr_dummy_dev_handle 0 (Some 0x101),
           Ev_dmbsy,
           Ev_stm32_sdmmc2_mmc_init \<lparr> reg_base = 0x58005000, device_info = MMC_IS_SD \<rparr> 0,
           Ev_register_io_dev_block 0,
           Ev_io_dev_open 0x200 0x2FFC0050 Ptr_storage_dev_handle 0 (Some 0x201),
           Ev_partition_init 28,
           Ev_io_dev_close 0x201 0,
           Ev_stm32_sdmmc2_mmc_get_device_size (2 ^ 33),
           Ev_get_partition_entry ''A'' (Some \<lparr> entry_name = ''A'', start = 100 \<rparr>),
           Ev_register_io_dev_mmc 0,
           Ev_io_dev_open 0x300 0 Ptr_storage_dev_handle 0 (Some 0x301),
           Ev_register_io_dev_stm32image 0,
           Ev_io_dev_open 0x400 0x2FFC0080 Ptr_image_dev_handle 0 (Some 0x401) ] \<rparr>"

text \<open>
  The state the harness halts in when it boots from eMMC, instance 0, and the medium has no
  partition \<open>C\<close>.
\<close>

definition halted_missing :: "(partition_entry list) state" where
  "halted_missing =
     \<lparr> dummy_dev_con = 0x100, dummy_dev_handle = 0x101, image_dev_handle = 0,
       storage_dev_handle = 0x201, mmc_dev_con = 0x200, stm32image_dev_con = 0,
       stm32image_dev_info_spec =
         \<lparr> part_info = [\<lparr> name = ''C'', binary_type = 0, part_offset = 0, bkp_offset = 0 \<rparr>],
           device_size = 2 ^ 33, lba_size = 512 \<rparr>,
       world = harness_table,
       trace =
         [ Log_INFO ''Using EMMC'',
           Ev_register_io_dev_dummy 0,
           Ev_io_dev_open 0x100 0 Ptr_dummy_dev_handle 0 (Some 0x101),
           Ev_dmbsy,
           Log_WARN ''SDMMC instance not found, using default'',
           Ev_stm32_sdmmc2_mmc_init \<lparr> reg_base = 0x58007000, device_info = MMC_IS_EMMC \<rparr> 0,
           Ev_register_io_dev_block 0,
           Ev_io_dev_open 0x200 0x2FFC0050 Ptr_storage_dev_handle 0 (Some 0x201),
           Ev_partition_init 28,
           Ev_io_dev_close 0x201 0,
           Ev_stm32_sdmmc2_mmc_get_device_size (2 ^ 33),
           Ev_get_partition_entry ''C'' None,
           Log_ERROR ''Partition %s not found'' ] \<rparr>"

text \<open>
  A medium whose partition \<open>A\<close> starts beyond 4 GiB, and the state the harness is in after
  a boot from it (SD card, instance 1).
\<close>

definition big_table :: "partition_entry list" where
  "big_table = [ \<lparr> entry_name = ''A'', start = 2 ^ 32 + 100 \<rparr> ]"

definition harness_big :: "(partition_entry list) env" where
  "harness_big = harness ''A'' big_table"

definition booted_big :: "(partition_entry list) state" where
  "booted_big =
     \<lparr> dummy_dev_con = 0x100, dummy_dev_handle = 0x101, image_dev_handle = 0x401,
       storage_dev_handle = 0x301, mmc_dev_con = 0x300, stm32image_dev_con = 0x400,
       stm32image_dev_info_spec =
         \<lparr> part_info = [\<lparr> name = ''A'', binary_type = 0, part_offset = 100, bkp_offset = 0 \<rparr>],
           device_size = 2 ^ 33, lba_size = 512 \<rparr>,
       world = big_table,
       trace =
         [ Log_INFO ''Using SDMMC'', Log_INFO ''  Instance %d'',
           Log_INFO ''Boot used partition fsbl%d'',
           Ev_register_io_dev_dummy 0,
           Ev_io_dev_open 0x100 0 Ptr_dummy_dev_handle 0 (Some 0x101),
           Ev_dmbsy,
           Ev_stm32_sdmmc2_mmc_init \<lparr> reg_base = 0x58005000, device_info = MMC_IS_SD \<rparr> 0,
           Ev_register_io_dev_block 0,
           Ev_io_dev_open 0x200 0x2FFC0050 Ptr_storage_dev_handle 0 (Some 0x201),
           Ev_partition_init 28,
           Ev_io_dev_close 0x201 0,
           Ev_stm32_sdmmc2_mmc_get_device_size (2 ^ 33),
           Ev_get_partition_entry ''A'' (Some \<lparr> entry_name = ''A'', start = 2 ^ 32 + 100 \<rparr>),
           Ev_register_io_dev_mmc 0,
           Ev_io_dev_open 0x300 0 Ptr_storage_dev_handle 0 (Some 0x301),
           Ev_register_io_dev_stm32image 0,
           Ev_io_dev_open 0x400 0x2FFC0080 Ptr_image_dev_handle 0 (Some 0x401) ] \<rparr>"

subsection \<open>Observers used to state the properties\<close>

text \<open>
  \<open>wp m Q s\<close>: the run of \<open>m\<close> from \<open>s\<close> ends, returning or halting, in an outcome and a
  state that satisfy \<open>Q\<close>.
\<close>

definition wp :: "('w, 'a) prog \<Rightarrow> ((halt + 'a) \<Rightarrow> 'w state \<Rightarrow> bool) \<Rightarrow> 'w state \<Rightarrow> bool" where
  "wp m Q s = (case m s of (r, s') \<Rightarrow> Q r s')"

text \<open>
  The events that claim or release the storage peripheral: the registration of the two
  connectors that drive it, every open through \<^verbatim>\<open>&storage_dev_handle\<close>, every close.
\<close>

fun storage_session_event :: "event \<Rightarrow> bool" where
  "storage_session_event (Ev_register_io_dev_block rc) = True"
| "storage_session_event (Ev_register_io_dev_mmc rc) = True"
| "storage_session_event (Ev_io_dev_open con spec p rc written) = (p = Ptr_storage_dev_handle)"
| "storage_session_event (Ev_io_dev_close h rc) = True"
| "storage_session_event _ = False"


section \<open>Properties\<close>

subsection \<open>The policy table\<close>

lemma fold_update_set:
  "set (fold (\<lambda>(i, p) t. t[i := p]) xs t0) \<subseteq> set t0 \<union> snd ` set xs"
proof (induction xs arbitrary: t0)
  case Nil
  then show ?case by simp
next
  case (Cons x xs)
  obtain i p where x: "x = (i, p)" by (cases x)
  have "set (t0[i := p]) \<subseteq> insert p (set t0)"
    by (rule set_update_subset_insert)
  with Cons.IH [of "t0[i := p]"] show ?case
    by (auto simp: x)
qed

lemma policies_elem:
  assumes "pol \<in> set (policies E)"
  shows "pol = zero_policy \<or> pol \<in> snd ` set (policy_initialisers E)"
proof -
  have "set (policies E) \<subseteq> {zero_policy} \<union> snd ` set (policy_initialisers E)"
    unfolding policies_def
    by (rule order_trans [OF fold_update_set]) auto
  with assms show ?thesis by blast
qed

text \<open>Every entry with a check has the handle variable that this check initialises.\<close>

lemma policy_wired:
  assumes "pol \<in> set (policies E)" and "check pol = Some f"
  shows "(f = Open_dummy \<and> dev_handle pol = Some Ptr_dummy_dev_handle) \<or>
         (f = Open_image \<and> dev_handle pol = Some Ptr_image_dev_handle) \<or>
         (f = Open_storage \<and> dev_handle pol = Some Ptr_storage_dev_handle)"
  using policies_elem [OF assms(1)] assms(2)
  by (auto simp: zero_policy_def policy_initialisers_def)

lemma call_io_dev_init_handles:
  "call_io_dev_init E h ip s = (r, s') \<Longrightarrow> read_handle p s' = read_handle p s"
  by (cases p) (auto simp: call_io_dev_init_def split: prod.splits)

lemma call_check_handles:
  "call_check E c spec s = (r, s') \<Longrightarrow> read_handle p s' = read_handle p s"
  by (cases "(E, c, spec)" rule: call_check.cases)
     (auto simp: stop_def open_dummy_def open_image_def open_storage_def
           dest: call_io_dev_init_handles)

lemma call_check_not_assert: "fst (call_check E c spec s) \<noteq> Inl Assert_failed"
  by (cases "(E, c, spec)" rule: call_check.cases)
     (auto simp: stop_def open_dummy_def open_image_def open_storage_def call_io_dev_init_def
           split: prod.splits)

lemma harness_policies_size: "ARRAY_SIZE (policies (harness nm tbl)) = 30"
  by (simp add: ARRAY_SIZE_def policies_def policy_initialisers_def harness_def)

lemma harness_policy_bl2:
  "policies (harness nm tbl) ! Suc 0 =
     \<lparr> dev_handle = Some Ptr_dummy_dev_handle, image_spec = 0x2FFC0000,
       check = Some Open_dummy \<rparr>"
  by (simp add: policies_def policy_initialisers_def harness_def)

lemma harness_policy_bl33:
  "policies (harness nm tbl) ! 5 =
     \<lparr> dev_handle = Some Ptr_image_dev_handle, image_spec = 0x2FFC0010,
       check = Some Open_image \<rparr>"
  by (simp add: policies_def policy_initialisers_def harness_def)

lemma harness_io_dev_init:
  "io_dev_init (harness nm tbl) h ip w = (if h = 0 then - 19 else 0, w)"
  by (simp add: harness_def)

subsection \<open>\<^verbatim>\<open>plat_get_image_source\<close>\<close>

text \<open>
  C1. For an \<open>image_id\<close> within the table whose availability check returns 0,
  \<^verbatim>\<open>plat_get_image_source\<close> returns 0, leaves in \<^verbatim>\<open>*image_spec\<close> the \<open>image_spec\<close> stored
  in the entry and leaves in \<^verbatim>\<open>*dev_handle\<close> the value that the entry's handle variable
  holds, which the check has not changed.
\<close>

theorem plat_get_image_source_success:
  assumes "image_id < ARRAY_SIZE (policies E)"
    and "call_check E (check (policies E ! image_id)) (image_spec (policies E ! image_id)) s
           = (Inr 0, s')"
  shows "\<exists>p. dev_handle (policies E ! image_id) = Some p \<and>
             read_handle p s' = read_handle p s \<and>
             plat_get_image_source E image_id out_dev_handle out_image_spec s =
               (Inr (0, read_handle p s', image_spec (policies E ! image_id)), s')"
proof -
  let ?pol = "policies E ! image_id"
  from assms(1) have mem: "?pol \<in> set (policies E)"
    by (simp add: ARRAY_SIZE_def)
  from assms(2) obtain f where f: "check ?pol = Some f"
    by (cases "check ?pol") (auto simp: stop_def)
  from policy_wired [OF mem f] obtain p where p: "dev_handle ?pol = Some p"
    by blast
  have same: "read_handle p s' = read_handle p s"
    using assms(2) by (rule call_check_handles)
  have "plat_get_image_source E image_id out_dev_handle out_image_spec s =
          (Inr (0, read_handle p s', image_spec ?pol), s')"
    using assms p
    by (simp add: plat_get_image_source_def bind_def c_assert_def ret_def Let_def)
  with p same show ?thesis by blast
qed

text \<open>
  On the harness, after the boot from SD card: BL2 (identifier 1) resolves to the handle
  that \<^verbatim>\<open>io_dev_open\<close> wrote for the dummy device during setup and to the address of
  \<^verbatim>\<open>bl2_block_spec\<close>.
\<close>

theorem plat_get_image_source_success_witness:
  "(1::nat) < ARRAY_SIZE (policies harness_A) \<and>
   call_check harness_A (check (policies harness_A ! 1)) (image_spec (policies harness_A ! 1))
     booted = (Inr 0, booted\<lparr>trace := trace booted @ [Ev_io_dev_init 0x101 0 0]\<rparr>) \<and>
   plat_get_image_source harness_A 1 7 9 booted =
     (Inr (0, 0x101, 0x2FFC0000), booted\<lparr>trace := trace booted @ [Ev_io_dev_init 0x101 0 0]\<rparr>)"
proof -
  have h1: "(1::nat) < ARRAY_SIZE (policies harness_A)"
    by (simp add: harness_A_def harness_policies_size)
  have h2: "call_check harness_A (check (policies harness_A ! 1))
              (image_spec (policies harness_A ! 1)) booted
            = (Inr 0, booted\<lparr>trace := trace booted @ [Ev_io_dev_init 0x101 0 0]\<rparr>)"
    by (simp add: harness_A_def harness_policy_bl2 open_dummy_def call_io_dev_init_def
          harness_io_dev_init booted_def)
  from plat_get_image_source_success [OF h1 h2, of 7 9] h1 h2 show ?thesis
    by (auto simp: harness_A_def harness_policy_bl2 booted_def)
qed

text \<open>
  C3. For an \<open>image_id\<close> within the table whose availability check returns a code other
  than 0, \<^verbatim>\<open>plat_get_image_source\<close> returns that code, both output locations keep their
  contents, and no handle variable has changed.
\<close>

theorem plat_get_image_source_failure:
  assumes "image_id < ARRAY_SIZE (policies E)"
    and "call_check E (check (policies E ! image_id)) (image_spec (policies E ! image_id)) s
           = (Inr rc, s')"
    and "rc \<noteq> 0"
  shows "plat_get_image_source E image_id out_dev_handle out_image_spec s =
           (Inr (rc, out_dev_handle, out_image_spec), s') \<and>
         (\<forall>p. read_handle p s' = read_handle p s)"
proof -
  have "\<forall>p. read_handle p s' = read_handle p s"
    using assms(2) by (blast dest: call_check_handles)
  moreover have "plat_get_image_source E image_id out_dev_handle out_image_spec s =
           (Inr (rc, out_dev_handle, out_image_spec), s')"
    using assms
    by (simp add: plat_get_image_source_def bind_def c_assert_def ret_def Let_def)
  ultimately show ?thesis by simp
qed

text \<open>
  On the harness, before any setup: the dummy handle is null, the check of BL2 answers
  \<open>-ENODEV\<close>, and the outputs 7 and 9 are handed back untouched.
\<close>

theorem plat_get_image_source_failure_witness:
  "(1::nat) < ARRAY_SIZE (policies harness_A) \<and>
   call_check harness_A (check (policies harness_A ! 1)) (image_spec (policies harness_A ! 1))
     (initial_state harness_A []) =
       (Inr (- 19), (initial_state harness_A [])\<lparr>trace := [Ev_io_dev_init 0 0 (- 19)]\<rparr>) \<and>
   (- 19 :: c_int) \<noteq> 0 \<and>
   plat_get_image_source harness_A 1 7 9 (initial_state harness_A []) =
     (Inr (- 19, 7, 9), (initial_state harness_A [])\<lparr>trace := [Ev_io_dev_init 0 0 (- 19)]\<rparr>)"
proof -
  have h1: "(1::nat) < ARRAY_SIZE (policies harness_A)"
    by (simp add: harness_A_def harness_policies_size)
  have h2: "call_check harness_A (check (policies harness_A ! 1))
              (image_spec (policies harness_A ! 1)) (initial_state harness_A [])
            = (Inr (- 19), (initial_state harness_A [])\<lparr>trace := [Ev_io_dev_init 0 0 (- 19)]\<rparr>)"
    by (simp add: harness_A_def harness_policy_bl2 open_dummy_def call_io_dev_init_def
          harness_io_dev_init initial_state_def)
  have h3: "(- 19 :: c_int) \<noteq> 0" by simp
  from plat_get_image_source_failure [OF h1 h2 h3, of 7 9] h1 h2 h3 show ?thesis
    by simp
qed

text \<open>
  C8. An \<open>image_id\<close> outside the table fails the assertion, and nothing else has happened;
  an \<open>image_id\<close> below the size of the table indexes it within bounds and the assertion
  does not fire.
\<close>

theorem plat_get_image_source_contract:
  "(\<not> image_id < ARRAY_SIZE (policies E) \<longrightarrow>
      plat_get_image_source E image_id out_dev_handle out_image_spec s = (Inl Assert_failed, s)) \<and>
   (image_id < ARRAY_SIZE (policies E) \<longrightarrow>
      image_id < length (policies E) \<and>
      fst (plat_get_image_source E image_id out_dev_handle out_image_spec s) \<noteq> Inl Assert_failed)"
proof (intro conjI impI)
  assume "\<not> image_id < ARRAY_SIZE (policies E)"
  then show "plat_get_image_source E image_id out_dev_handle out_image_spec s =
               (Inl Assert_failed, s)"
    by (simp add: plat_get_image_source_def bind_def c_assert_def stop_def)
next
  assume a: "image_id < ARRAY_SIZE (policies E)"
  then show "image_id < length (policies E)" by (simp add: ARRAY_SIZE_def)
  let ?pol = "policies E ! image_id"
  show "fst (plat_get_image_source E image_id out_dev_handle out_image_spec s) \<noteq>
          Inl Assert_failed"
  proof (cases "call_check E (check ?pol) (image_spec ?pol) s")
    case (Pair r s')
    with call_check_not_assert [of E "check ?pol" "image_spec ?pol" s]
    have "r \<noteq> Inl Assert_failed" by simp
    with Pair a show ?thesis
      by (cases r; cases "dev_handle ?pol")
         (auto simp: plat_get_image_source_def bind_def c_assert_def ret_def stop_def Let_def)
  qed
qed

text \<open>
  On the harness the table has 30 elements: identifier 30 fails the assertion, identifier
  1 does not.
\<close>

theorem plat_get_image_source_contract_witness:
  "\<not> (30::nat) < ARRAY_SIZE (policies harness_A) \<and>
   plat_get_image_source harness_A 30 7 9 booted = (Inl Assert_failed, booted) \<and>
   (1::nat) < ARRAY_SIZE (policies harness_A) \<and>
   (1::nat) < length (policies harness_A) \<and>
   fst (plat_get_image_source harness_A 1 7 9 booted) \<noteq> Inl Assert_failed"
  using plat_get_image_source_contract [of 30 harness_A 7 9 booted]
        plat_get_image_source_contract [of 1 harness_A 7 9 booted]
  by (simp add: harness_A_def harness_policies_size)

text \<open>
  C9. A check of the policy table does not look at its argument: whatever \<open>spec\<close> is, the
  check of an entry is \<^verbatim>\<open>io_dev_init\<close> on the value of that entry's handle variable with
  init parameter 0, and its result code is the one \<^verbatim>\<open>io_dev_init\<close> gives.
\<close>

theorem checks_ignore_spec:
  assumes "pol \<in> set (policies E)" and "check pol = Some f"
  shows "\<exists>p. dev_handle pol = Some p \<and>
           (\<forall>spec s. call_check E (check pol) spec s = call_io_dev_init E (read_handle p s) 0 s \<and>
                     fst (call_check E (check pol) spec s) =
                       Inr (fst (io_dev_init E (read_handle p s) 0 (world s))))"
proof -
  from policy_wired [OF assms] consider
      "f = Open_dummy" "dev_handle pol = Some Ptr_dummy_dev_handle"
    | "f = Open_image" "dev_handle pol = Some Ptr_image_dev_handle"
    | "f = Open_storage" "dev_handle pol = Some Ptr_storage_dev_handle"
    by blast
  then show ?thesis
  proof cases
    case 1
    with assms(2) show ?thesis
      by (simp add: open_dummy_def call_io_dev_init_def split: prod.splits)
  next
    case 2
    with assms(2) show ?thesis
      by (simp add: open_image_def call_io_dev_init_def split: prod.splits)
  next
    case 3
    with assms(2) show ?thesis
      by (simp add: open_storage_def call_io_dev_init_def split: prod.splits)
  qed
qed

text \<open>On the harness: the entry of BL33 (identifier 5), checked with two different specs.\<close>

theorem checks_ignore_spec_witness:
  "policies harness_A ! 5 \<in> set (policies harness_A) \<and>
   check (policies harness_A ! 5) = Some Open_image \<and>
   dev_handle (policies harness_A ! 5) = Some Ptr_image_dev_handle \<and>
   call_check harness_A (check (policies harness_A ! 5)) 0 booted =
     call_io_dev_init harness_A 0x401 0 booted \<and>
   call_check harness_A (check (policies harness_A ! 5)) 0x2FFC0010 booted =
     call_io_dev_init harness_A 0x401 0 booted"
proof -
  have h1: "policies harness_A ! 5 \<in> set (policies harness_A)"
    using harness_policies_size [of "''A''" harness_table]
    by (simp add: harness_A_def ARRAY_SIZE_def)
  have h2: "check (policies harness_A ! 5) = Some Open_image"
    by (simp add: harness_A_def harness_policy_bl33)
  have h3: "dev_handle (policies harness_A ! 5) = Some Ptr_image_dev_handle"
    by (simp add: harness_A_def harness_policy_bl33)
  have h4: "read_handle Ptr_image_dev_handle booted = 0x401"
    by (simp add: booted_def)
  from checks_ignore_spec [OF h1 h2] h3 h4
  have "\<forall>spec. call_check harness_A (check (policies harness_A ! 5)) spec booted =
                 call_io_dev_init harness_A 0x401 0 booted"
    by auto
  with h1 h2 h3 show ?thesis by simp
qed

subsection \<open>Running \<^verbatim>\<open>stm32mp1_io_setup\<close>\<close>

lemma wpI: "m s = (r, s') \<Longrightarrow> wp m Q s \<Longrightarrow> Q r s'"
  by (simp add: wp_def)

lemma wp_bind:
  "wp (bind m f) Q s =
     wp m (\<lambda>r s'. case r of Inl h \<Rightarrow> Q (Inl h) s' | Inr x \<Rightarrow> wp (f x) Q s') s"
  by (simp add: wp_def bind_def split: prod.splits sum.splits)

lemma wp_seq:
  "wp (seq m n) Q s =
     wp m (\<lambda>r s'. case r of Inl h \<Rightarrow> Q (Inl h) s' | Inr x \<Rightarrow> wp n Q s') s"
  by (simp add: seq_def wp_bind)

lemma wp_ret: "wp (ret x) Q s = Q (Inr x) s"
  by (simp add: wp_def ret_def)

lemma wp_stop: "wp (stop h) Q s = Q (Inl h) s"
  by (simp add: wp_def stop_def)

lemma wp_panic: "wp panic Q s = Q (Inl Panic) s"
  by (simp add: panic_def wp_stop)

lemma wp_c_assert:
  "wp (c_assert b) Q s = ((b \<longrightarrow> Q (Inr ()) s) \<and> (\<not> b \<longrightarrow> Q (Inl Assert_failed) s))"
  by (simp add: c_assert_def wp_ret wp_stop)

lemma wp_Pair: "wp (Pair r) Q s = Q r s"
  by (simp add: wp_def)

lemma wp_emit: "wp (emit e) Q s = Q (Inr ()) (s\<lparr>trace := trace s @ [e]\<rparr>)"
  by (simp add: wp_def emit_def)

lemma wp_if: "wp (if b then m else n) Q s = ((b \<longrightarrow> wp m Q s) \<and> (\<not> b \<longrightarrow> wp n Q s))"
  by simp

lemma wp_upd: "wp (\<lambda>s. (Inr x, f s)) Q s = Q (Inr x) (f s)"
  by (simp add: wp_def)

lemma wp_call_register:
  "wp (call_register f ev p) Q s =
     (\<forall>rc written w'. f (world s) = ((rc, written), w') \<longrightarrow>
        Q (Inr rc) (write_con p (case written of None \<Rightarrow> read_con p s | Some c \<Rightarrow> c)
                      (s\<lparr>world := w', trace := trace s @ [ev rc]\<rparr>)))"
  by (auto simp: wp_def call_register_def split: prod.splits)

lemma wp_call_io_dev_open:
  "wp (\<lambda>s. call_io_dev_open E (c s) spec p s) Q s =
     (\<forall>rc written w'. io_dev_open E (c s) spec (world s) = ((rc, written), w') \<longrightarrow>
        Q (Inr rc)
          (write_handle p (case written of None \<Rightarrow> read_handle p s | Some h \<Rightarrow> h)
             (s\<lparr>world := w', trace := trace s @ [Ev_io_dev_open (c s) spec p rc written]\<rparr>)))"
  by (auto simp: wp_def call_io_dev_open_def split: prod.splits)

lemma wp_call_io_dev_close:
  "wp (\<lambda>s. call_io_dev_close E (h s) s) Q s =
     (\<forall>rc w'. io_dev_close E (h s) (world s) = (rc, w') \<longrightarrow>
        Q (Inr rc) (s\<lparr>world := w', trace := trace s @ [Ev_io_dev_close (h s) rc]\<rparr>))"
  by (auto simp: wp_def call_io_dev_close_def split: prod.splits)

lemma wp_call_stm32_sdmmc2_mmc_init:
  "wp (call_stm32_sdmmc2_mmc_init E params) Q s =
     (\<forall>rc w'. stm32_sdmmc2_mmc_init E params (world s) = (rc, w') \<longrightarrow>
        Q (Inr rc) (s\<lparr>world := w', trace := trace s @ [Ev_stm32_sdmmc2_mmc_init params rc]\<rparr>))"
  by (auto simp: wp_def call_stm32_sdmmc2_mmc_init_def split: prod.splits)

lemma wp_call_partition_init:
  "wp (call_partition_init E i) Q s =
     Q (Inr ()) (s\<lparr>world := partition_init E i (world s),
                  trace := trace s @ [Ev_partition_init i]\<rparr>)"
  by (simp add: wp_def call_partition_init_def)

lemma wp_call_get_device_size:
  "wp (call_stm32_sdmmc2_mmc_get_device_size E) Q s =
     (\<forall>n w'. stm32_sdmmc2_mmc_get_device_size E (world s) = (n, w') \<longrightarrow>
        Q (Inr n) (s\<lparr>world := w', trace := trace s @ [Ev_stm32_sdmmc2_mmc_get_device_size n]\<rparr>))"
  by (auto simp: wp_def call_stm32_sdmmc2_mmc_get_device_size_def split: prod.splits)

lemma wp_call_get_partition_entry:
  "wp (call_get_partition_entry E nm) Q s =
     (\<forall>r w'. get_partition_entry E nm (world s) = (r, w') \<longrightarrow>
        Q (Inr r) (s\<lparr>world := w', trace := trace s @ [Ev_get_partition_entry nm r]\<rparr>))"
  by (auto simp: wp_def call_get_partition_entry_def split: prod.splits)

lemma part_info_loop_0:
  "part_info_loop E 0 s =
     (case part_info_step E 0 s of (Inl h, s') \<Rightarrow> (Inl h, s') | (Inr u, s') \<Rightarrow> (Inr (), s'))"
  apply (subst part_info_loop.simps)
  apply (simp add: IMG_IDX_NUM_def split: prod.splits sum.splits)
  apply (subst part_info_loop.simps)
  apply (simp add: IMG_IDX_NUM_def)
  done

lemma wp_part_info_loop_0:
  "wp (part_info_loop E 0) Q s = wp (part_info_step E 0) Q s"
  by (simp add: wp_def part_info_loop_0 split: prod.splits sum.splits)

lemma wp_part_info_step:
  "wp (part_info_step E idx) Q s =
     ((length (part_info (stm32image_dev_info_spec s)) \<le> idx \<longrightarrow> Q (Inl Undefined_behaviour) s) \<and>
      (\<not> length (part_info (stm32image_dev_info_spec s)) \<le> idx \<longrightarrow>
       (\<forall>r w'. get_partition_entry E (name (part_info (stm32image_dev_info_spec s) ! idx))
                     (world s) = (r, w') \<longrightarrow>
        (r = None \<longrightarrow> Q (Inl Panic)
             (s\<lparr>world := w',
                trace := trace s @
                  [Ev_get_partition_entry (name (part_info (stm32image_dev_info_spec s) ! idx)) None,
                   Log_ERROR ''Partition %s not found'']\<rparr>)) \<and>
        (\<forall>e. r = Some e \<longrightarrow> Q (Inr ())
             (set_part_offsets idx (start e mod 2 ^ part_offset_bits E)
               (s\<lparr>world := w',
                  trace := trace s @
                    [Ev_get_partition_entry (name (part_info (stm32image_dev_info_spec s) ! idx))
                       (Some e)]\<rparr>))))))"
  by (auto simp: wp_def part_info_step_def stop_def bind_def seq_def emit_def panic_def
        call_get_partition_entry_def split: prod.splits option.splits)

lemma trace_set_part_offsets [simp]: "trace (set_part_offsets i off s) = trace s"
  by (simp add: set_part_offsets_def)

lemma world_set_part_offsets [simp]: "world (set_part_offsets i off s) = world s"
  by (simp add: set_part_offsets_def)

lemma cons_set_part_offsets [simp]:
  "mmc_dev_con (set_part_offsets i off s) = mmc_dev_con s"
  "stm32image_dev_con (set_part_offsets i off s) = stm32image_dev_con s"
  "dummy_dev_con (set_part_offsets i off s) = dummy_dev_con s"
  "storage_dev_handle (set_part_offsets i off s) = storage_dev_handle s"
  "image_dev_handle (set_part_offsets i off s) = image_dev_handle s"
  "dummy_dev_handle (set_part_offsets i off s) = dummy_dev_handle s"
  by (simp_all add: set_part_offsets_def)

lemma upd_set_part_offsets [simp]:
  "(set_part_offsets i off s)\<lparr>trace := t\<rparr> = set_part_offsets i off (s\<lparr>trace := t\<rparr>)"
  "(set_part_offsets i off s)\<lparr>world := w\<rparr> = set_part_offsets i off (s\<lparr>world := w\<rparr>)"
  "(set_part_offsets i off s)\<lparr>mmc_dev_con := c\<rparr> = set_part_offsets i off (s\<lparr>mmc_dev_con := c\<rparr>)"
  "(set_part_offsets i off s)\<lparr>stm32image_dev_con := c\<rparr> = set_part_offsets i off (s\<lparr>stm32image_dev_con := c\<rparr>)"
  "(set_part_offsets i off s)\<lparr>storage_dev_handle := c\<rparr> = set_part_offsets i off (s\<lparr>storage_dev_handle := c\<rparr>)"
  "(set_part_offsets i off s)\<lparr>image_dev_handle := c\<rparr> = set_part_offsets i off (s\<lparr>image_dev_handle := c\<rparr>)"
  by (simp_all add: set_part_offsets_def)

lemmas wp_rules =
  wp_bind wp_seq wp_ret wp_stop wp_panic wp_c_assert wp_emit wp_upd wp_Pair wp_if
  wp_call_register wp_call_io_dev_open
  wp_call_io_dev_close wp_call_stm32_sdmmc2_mmc_init
  wp_call_partition_init wp_call_get_device_size wp_part_info_loop_0 wp_part_info_step

lemma print_boot_device_recognised:
  assumes "boot_interface_selected ctx = BOOT_API_CTX_BOOT_INTERFACE_SEL_FLASH_SD E \<or>
           boot_interface_selected ctx = BOOT_API_CTX_BOOT_INTERFACE_SEL_FLASH_EMMC E"
  shows "\<exists>l. set l \<subseteq> range Log_INFO \<and>
             print_boot_device E ctx = (\<lambda>s. (Inr (), s\<lparr>trace := trace s @ l\<rparr>))"
proof -
  let ?a = "if boot_interface_selected ctx = BOOT_API_CTX_BOOT_INTERFACE_SEL_FLASH_SD E
            then ''Using SDMMC'' else ''Using EMMC''"
  let ?l = "Log_INFO ?a # (if boot_interface_instance ctx \<noteq> 0 then [Log_INFO ''  Instance %d''] else [])"
  have "print_boot_device E ctx = (\<lambda>s. (Inr (), s\<lparr>trace := trace s @ ?l\<rparr>))"
    using assms
    by (auto simp: print_boot_device_def seq_def bind_def emit_def ret_def fun_eq_iff)
  moreover have "set ?l \<subseteq> range Log_INFO" by auto
  ultimately show ?thesis by blast
qed

lemma used_partition_log:
  "\<exists>l. set l \<subseteq> range Log_INFO \<and>
       (if b then emit (Log_INFO m) else ret ()) = (\<lambda>s. (Inr (), s\<lparr>trace := trace s @ l\<rparr>))"
proof (cases b)
  case True
  then have "(if b then emit (Log_INFO m) else ret ()) = (\<lambda>s. (Inr (), s\<lparr>trace := trace s @ [Log_INFO m]\<rparr>))"
    by (simp add: emit_def)
  moreover have "set [Log_INFO m] \<subseteq> range Log_INFO" by simp
  ultimately show ?thesis by blast
next
  case False
  then have "(if b then emit (Log_INFO m) else ret ()) = (\<lambda>s. (Inr (), s\<lparr>trace := trace s @ []\<rparr>))"
    by (simp add: ret_def)
  moreover have "set [] \<subseteq> range Log_INFO" by simp
  ultimately show ?thesis by blast
qed

lemma wp_logs: "wp (\<lambda>s. (Inr (), s\<lparr>trace := trace s @ l\<rparr>)) Q s = Q (Inr ()) (s\<lparr>trace := trace s @ l\<rparr>)"
  by (simp add: wp_def)

lemma base_select:
  "(if i = 1 then ret a else if i = 2 then ret b else if i = 3 then ret c
    else seq (emit e) (ret d)) =
   (\<lambda>s. (Inr (if i = 1 then a else if i = 2 then b else if i = 3 then c else d),
         s\<lparr>trace := trace s @ (if i = 1 \<or> i = 2 \<or> i = 3 then [] else [e])\<rparr>))"
  by (auto simp: ret_def seq_def bind_def emit_def fun_eq_iff)

lemma wp_base: "wp (\<lambda>s. (Inr x, s\<lparr>trace := trace s @ l\<rparr>)) Q s = Q (Inr x) (s\<lparr>trace := trace s @ l\<rparr>)"
  by (simp add: wp_def)

lemma pair_if: "(if c then (a, b) else (a', b')) = (if c then a else a', if c then b else b')"
  by simp


lemma setup_logs:
  fixes E :: "'w env"
  assumes "boot_interface_selected ctx = BOOT_API_CTX_BOOT_INTERFACE_SEL_FLASH_SD E \<or>
           boot_interface_selected ctx = BOOT_API_CTX_BOOT_INTERFACE_SEL_FLASH_EMMC E"
  obtains l1 l2 where
    "set l1 \<subseteq> range Log_INFO" "set l2 \<subseteq> range Log_INFO"
    "print_boot_device E ctx = (\<lambda>s. (Inr (), s\<lparr>trace := trace s @ l1\<rparr>))"
    "(if boot_partition_used_toboot ctx = 1 \<or> boot_partition_used_toboot ctx = 2
      then emit (Log_INFO ''Boot used partition fsbl%d'') else (ret () :: ('w, unit) prog))
     = (\<lambda>s. (Inr (), s\<lparr>trace := trace s @ l2\<rparr>))"
proof -
  from print_boot_device_recognised [OF assms] obtain l1 where
    l1: "set l1 \<subseteq> range Log_INFO"
        "print_boot_device E ctx = (\<lambda>s. (Inr (), s\<lparr>trace := trace s @ l1\<rparr>))"
    by blast
  from used_partition_log
    [of "boot_partition_used_toboot ctx = 1 \<or> boot_partition_used_toboot ctx = 2"
        "''Boot used partition fsbl%d''"]
  obtain l2 where
    l2: "set l2 \<subseteq> range Log_INFO"
        "(if boot_partition_used_toboot ctx = 1 \<or> boot_partition_used_toboot ctx = 2
          then emit (Log_INFO ''Boot used partition fsbl%d'') else (ret () :: ('w, unit) prog))
         = (\<lambda>s. (Inr (), s\<lparr>trace := trace s @ l2\<rparr>))"
    by blast
  from l1(1) l2(1) l1(2) l2(2) show thesis by (rule that)
qed

lemma setup_unrecognised:
  assumes "boot_interface_selected ctx \<noteq> BOOT_API_CTX_BOOT_INTERFACE_SEL_FLASH_SD E"
    and "boot_interface_selected ctx \<noteq> BOOT_API_CTX_BOOT_INTERFACE_SEL_FLASH_EMMC E"
  shows "print_boot_device E ctx s =
           (Inl Panic, s\<lparr>trace := trace s @ [Log_ERROR ''Boot interface not found'']\<rparr>)"
    and "stm32mp1_io_setup E ctx s = print_boot_device E ctx s"
  using assms
  by (simp_all add: stm32mp1_io_setup_def print_boot_device_def seq_def bind_def emit_def
        panic_def stop_def)

lemma trace_initial_state: "trace (initial_state E w) = []"
  by (simp add: initial_state_def)

lemma harness_boot_sd:
  "stm32mp1_io_setup harness_A sd_instance_1 (initial_state harness_A []) = (Inr (), booted)"
proof -
  have "wp (stm32mp1_io_setup harness_A sd_instance_1) (\<lambda>r s'. r = Inr () \<and> s' = booted)
          (initial_state harness_A [])"
    by (simp add: stm32mp1_io_setup_def io_setup_flash_def print_boot_device_def wp_rules
          harness_A_def harness_def harness_table_def sd_instance_1_def initial_state_def
          dummy_dev_spec_def set_part_offsets_def Let_def booted_def)
  then show ?thesis
    by (simp add: wp_def split: prod.splits)
qed

lemma harness_boot_missing:
  "stm32mp1_io_setup harness_C emmc_instance_0 (initial_state harness_C []) =
     (Inl Panic, halted_missing)"
proof -
  have "wp (stm32mp1_io_setup harness_C emmc_instance_0)
          (\<lambda>r s'. r = Inl Panic \<and> s' = halted_missing) (initial_state harness_C [])"
    by (simp add: stm32mp1_io_setup_def io_setup_flash_def print_boot_device_def wp_rules
          harness_C_def harness_def harness_table_def emmc_instance_0_def initial_state_def
          dummy_dev_spec_def set_part_offsets_def Let_def halted_missing_def)
  then show ?thesis
    by (simp add: wp_def split: prod.splits)
qed

lemma harness_boot_big:
  "stm32mp1_io_setup harness_big sd_instance_1 (initial_state harness_big []) =
     (Inr (), booted_big)"
proof -
  have "wp (stm32mp1_io_setup harness_big sd_instance_1) (\<lambda>r s'. r = Inr () \<and> s' = booted_big)
          (initial_state harness_big [])"
    by (simp add: stm32mp1_io_setup_def io_setup_flash_def print_boot_device_def wp_rules
          harness_big_def harness_def big_table_def sd_instance_1_def initial_state_def
          dummy_dev_spec_def set_part_offsets_def Let_def booted_big_def)
  then show ?thesis
    by (simp add: wp_def split: prod.splits)
qed

lemma harness_consts:
  "BOOT_API_CTX_BOOT_INTERFACE_SEL_FLASH_SD (harness nm tbl) = 1"
  "BOOT_API_CTX_BOOT_INTERFACE_SEL_FLASH_EMMC (harness nm tbl) = 2"
  "STM32MP1_SDMMC1_BASE (harness nm tbl) = 0x58005000"
  "STM32MP1_SDMMC2_BASE (harness nm tbl) = 0x58007000"
  "STM32MP1_SDMMC3_BASE (harness nm tbl) = 0x48004000"
  "part_offset_bits (harness nm tbl) = 32"
  "addr_of (harness nm tbl) = harness_addr_of"
  by (simp_all add: harness_def)

subsection \<open>\<^verbatim>\<open>stm32mp1_io_setup\<close> on a recognised boot interface\<close>

text \<open>
  C4. In every run of setup that returns, the events that claim or release the storage
  peripheral are, in this order: the block connector is registered, the block device is
  opened through \<^verbatim>\<open>&storage_dev_handle\<close>, the handle this open left there is closed, the
  \<^verbatim>\<open>io_mmc\<close> connector is registered, the \<^verbatim>\<open>io_mmc\<close> device is opened through
  \<^verbatim>\<open>&storage_dev_handle\<close>. The close comes before the second open, and there is no other
  open or close on the peripheral. (A run that returns has a recognised boot interface: any
  other panics.)
\<close>

theorem block_session_closed_before_streaming_open:
  fixes E :: "'w env"
  assumes run: "stm32mp1_io_setup E boot_context s = (Inr (), s')"
    and evs: "trace s' = trace s @ evs"
  shows "\<exists>c1 w1 c2 w2.
           filter storage_session_event evs =
             [Ev_register_io_dev_block 0,
              Ev_io_dev_open c1 (addr_of E Mmc_block_dev_spec) Ptr_storage_dev_handle 0 w1,
              Ev_io_dev_close (case w1 of None \<Rightarrow> storage_dev_handle s | Some h \<Rightarrow> h) 0,
              Ev_register_io_dev_mmc 0,
              Ev_io_dev_open c2 0 Ptr_storage_dev_handle 0 w2]"
proof (cases "boot_interface_selected boot_context = BOOT_API_CTX_BOOT_INTERFACE_SEL_FLASH_SD E \<or>
              boot_interface_selected boot_context = BOOT_API_CTX_BOOT_INTERFACE_SEL_FLASH_EMMC E")
  case False
  with setup_unrecognised [of boot_context E s] run show ?thesis
    by auto
next
  case rec: True
  from rec obtain l1 l2 where l: "set l1 \<subseteq> range Log_INFO" "set l2 \<subseteq> range Log_INFO"
      "print_boot_device E boot_context = (\<lambda>s. (Inr (), s\<lparr>trace := trace s @ l1\<rparr>))"
      "(if boot_partition_used_toboot boot_context = 1 \<or> boot_partition_used_toboot boot_context = 2
        then emit (Log_INFO ''Boot used partition fsbl%d'') else (ret () :: ('w, unit) prog))
       = (\<lambda>s. (Inr (), s\<lparr>trace := trace s @ l2\<rparr>))"
    by (rule setup_logs)
  define wl where "wl = (if boot_interface_instance boot_context = 1 \<or>
      boot_interface_instance boot_context = 2 \<or> boot_interface_instance boot_context = 3
    then [] else [Log_WARN ''SDMMC instance not found, using default''])"
  have f: "filter storage_session_event l1 = []" "filter storage_session_event l2 = []"
       "filter storage_session_event wl = []"
    using l(1,2) by (auto simp: filter_empty_conv wl_def)
  have "wp (stm32mp1_io_setup E boot_context)
          (\<lambda>r s'. r = Inr () \<longrightarrow> (\<forall>evs. trace s' = trace s @ evs \<longrightarrow>
               (\<exists>c1 w1 c2 w2.
                  filter storage_session_event evs =
                    [Ev_register_io_dev_block 0,
                     Ev_io_dev_open c1 (addr_of E Mmc_block_dev_spec) Ptr_storage_dev_handle 0 w1,
                     Ev_io_dev_close (case w1 of None \<Rightarrow> storage_dev_handle s | Some h \<Rightarrow> h) 0,
                     Ev_register_io_dev_mmc 0,
                     Ev_io_dev_open c2 0 Ptr_storage_dev_handle 0 w2]))) s"
    unfolding stm32mp1_io_setup_def io_setup_flash_def l(3,4) base_select pair_if
      wl_def [symmetric]
    using rec
    by (simp add: wp_rules wp_logs wp_base Let_def f cong: option.case_cong split del: if_split)
  from wpI [OF run this] evs show ?thesis by simp
qed

text \<open>
  On the harness, the boot from SD card: the block session on handle \<open>0x201\<close> is closed
  before the \<^verbatim>\<open>io_mmc\<close> session is opened.
\<close>

theorem block_session_closed_before_streaming_open_witness:
  "stm32mp1_io_setup harness_A sd_instance_1 (initial_state harness_A []) = (Inr (), booted) \<and>
   trace booted = trace (initial_state harness_A []) @ trace booted \<and>
   filter storage_session_event (trace booted) =
     [Ev_register_io_dev_block 0,
      Ev_io_dev_open 0x200 0x2FFC0050 Ptr_storage_dev_handle 0 (Some 0x201),
      Ev_io_dev_close 0x201 0,
      Ev_register_io_dev_mmc 0,
      Ev_io_dev_open 0x300 0 Ptr_storage_dev_handle 0 (Some 0x301)]"
proof -
  have h2: "trace booted = trace (initial_state harness_A []) @ trace booted"
    by (simp add: trace_initial_state)
  from block_session_closed_before_streaming_open [OF harness_boot_sd h2] harness_boot_sd h2
  show ?thesis
    by (simp add: booted_def)
qed

text \<open>
  A lookup that finds no entry ends the run in \<^verbatim>\<open>panic\<close>; the container device is reached
  only past a lookup that found one.
\<close>

lemma lookup_failure_panics:
  fixes E :: "'w env"
  assumes run: "stm32mp1_io_setup E boot_context s = (r, s')"
    and evs: "trace s' = trace s @ evs"
    and missing: "Ev_get_partition_entry nm None \<in> set evs"
  shows "r = Inl Panic \<and>
         nm = name (part_info (stm32image_dev_info_spec s) ! 0) \<and>
         last evs = Log_ERROR ''Partition %s not found'' \<and>
         (\<forall>rc. Ev_register_io_dev_stm32image rc \<notin> set evs) \<and>
         (\<forall>con spec rc written. Ev_io_dev_open con spec Ptr_image_dev_handle rc written \<notin> set evs)"
proof (cases "boot_interface_selected boot_context = BOOT_API_CTX_BOOT_INTERFACE_SEL_FLASH_SD E \<or>
              boot_interface_selected boot_context = BOOT_API_CTX_BOOT_INTERFACE_SEL_FLASH_EMMC E")
  case False
  with setup_unrecognised [of boot_context E s] run evs missing show ?thesis
    by auto
next
  case rec: True
  from rec obtain l1 l2 where l: "set l1 \<subseteq> range Log_INFO" "set l2 \<subseteq> range Log_INFO"
      "print_boot_device E boot_context = (\<lambda>s. (Inr (), s\<lparr>trace := trace s @ l1\<rparr>))"
      "(if boot_partition_used_toboot boot_context = 1 \<or> boot_partition_used_toboot boot_context = 2
        then emit (Log_INFO ''Boot used partition fsbl%d'') else (ret () :: ('w, unit) prog))
       = (\<lambda>s. (Inr (), s\<lparr>trace := trace s @ l2\<rparr>))"
    by (rule setup_logs)
  define wl where "wl = (if boot_interface_instance boot_context = 1 \<or>
      boot_interface_instance boot_context = 2 \<or> boot_interface_instance boot_context = 3
    then [] else [Log_WARN ''SDMMC instance not found, using default''])"
  have f: "\<And>a b. Ev_get_partition_entry a b \<notin> set l1"
      "\<And>a b. Ev_get_partition_entry a b \<notin> set l2"
      "\<And>a b. Ev_get_partition_entry a b \<notin> set wl"
      "\<And>a. Ev_register_io_dev_stm32image a \<notin> set l1"
      "\<And>a. Ev_register_io_dev_stm32image a \<notin> set l2"
      "\<And>a. Ev_register_io_dev_stm32image a \<notin> set wl"
      "\<And>a b c d e. Ev_io_dev_open a b c d e \<notin> set l1"
      "\<And>a b c d e. Ev_io_dev_open a b c d e \<notin> set l2"
      "\<And>a b c d e. Ev_io_dev_open a b c d e \<notin> set wl"
    using l(1,2) by (auto simp: wl_def)
  have "wp (stm32mp1_io_setup E boot_context)
           (\<lambda>r s'. \<forall>evs. trace s' = trace s @ evs \<longrightarrow>
               Ev_get_partition_entry nm None \<in> set evs \<longrightarrow>
               r = Inl Panic \<and> nm = name (part_info (stm32image_dev_info_spec s) ! 0) \<and>
               last evs = Log_ERROR ''Partition %s not found'' \<and>
               (\<forall>rc. Ev_register_io_dev_stm32image rc \<notin> set evs) \<and>
               (\<forall>a b c d. Ev_io_dev_open a b Ptr_image_dev_handle c d \<notin> set evs)) s"
    unfolding stm32mp1_io_setup_def io_setup_flash_def l(3,4) base_select pair_if
      wl_def [symmetric]
    using rec
    by (simp add: wp_rules wp_logs wp_base Let_def f cong: option.case_cong split del: if_split)
  from wpI [OF run this] evs missing show ?thesis by simp
qed

lemma container_needs_found:
  fixes E :: "'w env"
  assumes run: "stm32mp1_io_setup E boot_context s = (r, s')"
    and evs: "trace s' = trace s @ evs"
    and reached: "r = Inr () \<or> (\<exists>rc. Ev_register_io_dev_stm32image rc \<in> set evs) \<or>
       (\<exists>con spec rc written. Ev_io_dev_open con spec Ptr_image_dev_handle rc written \<in> set evs)"
  shows "\<exists>e. Ev_get_partition_entry (name (part_info (stm32image_dev_info_spec s) ! 0)) (Some e)
               \<in> set evs"
proof (cases "boot_interface_selected boot_context = BOOT_API_CTX_BOOT_INTERFACE_SEL_FLASH_SD E \<or>
              boot_interface_selected boot_context = BOOT_API_CTX_BOOT_INTERFACE_SEL_FLASH_EMMC E")
  case False
  with setup_unrecognised [of boot_context E s] run evs reached show ?thesis
    by auto
next
  case rec: True
  from rec obtain l1 l2 where l: "set l1 \<subseteq> range Log_INFO" "set l2 \<subseteq> range Log_INFO"
      "print_boot_device E boot_context = (\<lambda>s. (Inr (), s\<lparr>trace := trace s @ l1\<rparr>))"
      "(if boot_partition_used_toboot boot_context = 1 \<or> boot_partition_used_toboot boot_context = 2
        then emit (Log_INFO ''Boot used partition fsbl%d'') else (ret () :: ('w, unit) prog))
       = (\<lambda>s. (Inr (), s\<lparr>trace := trace s @ l2\<rparr>))"
    by (rule setup_logs)
  define wl where "wl = (if boot_interface_instance boot_context = 1 \<or>
      boot_interface_instance boot_context = 2 \<or> boot_interface_instance boot_context = 3
    then [] else [Log_WARN ''SDMMC instance not found, using default''])"
  have f: "\<And>a b. Ev_get_partition_entry a b \<notin> set l1"
      "\<And>a b. Ev_get_partition_entry a b \<notin> set l2"
      "\<And>a b. Ev_get_partition_entry a b \<notin> set wl"
      "\<And>a. Ev_register_io_dev_stm32image a \<notin> set l1"
      "\<And>a. Ev_register_io_dev_stm32image a \<notin> set l2"
      "\<And>a. Ev_register_io_dev_stm32image a \<notin> set wl"
      "\<And>a b c d e. Ev_io_dev_open a b c d e \<notin> set l1"
      "\<And>a b c d e. Ev_io_dev_open a b c d e \<notin> set l2"
      "\<And>a b c d e. Ev_io_dev_open a b c d e \<notin> set wl"
    using l(1,2) by (auto simp: wl_def)
  have "wp (stm32mp1_io_setup E boot_context)
           (\<lambda>r s'. \<forall>evs. trace s' = trace s @ evs \<longrightarrow>
               (r = Inr () \<or> (\<exists>rc. Ev_register_io_dev_stm32image rc \<in> set evs) \<or>
                (\<exists>con spec rc written.
                   Ev_io_dev_open con spec Ptr_image_dev_handle rc written \<in> set evs)) \<longrightarrow>
               (\<exists>e. Ev_get_partition_entry
                      (name (part_info (stm32image_dev_info_spec s) ! 0)) (Some e) \<in> set evs)) s"
    unfolding stm32mp1_io_setup_def io_setup_flash_def l(3,4) base_select pair_if
      wl_def [symmetric]
    using rec
    by (simp add: wp_rules wp_logs wp_base Let_def f cong: option.case_cong split del: if_split)
  from wpI [OF run this] evs reached show ?thesis by blast
qed

text \<open>
  C5. Setup registers the \<^verbatim>\<open>stm32image\<close> connector, opens through
  \<^verbatim>\<open>&image_dev_handle\<close> or returns only after the partition table has yielded an entry
  for the name of the \<^verbatim>\<open>part_info\<close> list: in a run without such a successful lookup
  setup does not return and the container device is neither registered nor opened. And a
  run in which the lookup of a name finds no entry halts by \<^verbatim>\<open>panic\<close>, its last act being
  the report of the missing partition, with the container device neither registered nor
  opened.
\<close>

theorem missing_partition_is_fatal:
  fixes E :: "'w env"
  assumes run: "stm32mp1_io_setup E boot_context s = (r, s')"
    and evs: "trace s' = trace s @ evs"
  shows "(Ev_get_partition_entry nm None \<in> set evs \<longrightarrow>
            r = Inl Panic \<and>
            nm = name (part_info (stm32image_dev_info_spec s) ! 0) \<and>
            last evs = Log_ERROR ''Partition %s not found'' \<and>
            (\<forall>rc. Ev_register_io_dev_stm32image rc \<notin> set evs) \<and>
            (\<forall>con spec rc written.
               Ev_io_dev_open con spec Ptr_image_dev_handle rc written \<notin> set evs)) \<and>
         ((\<forall>e. Ev_get_partition_entry (name (part_info (stm32image_dev_info_spec s) ! 0)) (Some e)
                 \<notin> set evs) \<longrightarrow>
            r \<noteq> Inr () \<and>
            (\<forall>rc. Ev_register_io_dev_stm32image rc \<notin> set evs) \<and>
            (\<forall>con spec rc written.
               Ev_io_dev_open con spec Ptr_image_dev_handle rc written \<notin> set evs))"
proof -
  have a: "Ev_get_partition_entry nm None \<in> set evs \<longrightarrow>
            r = Inl Panic \<and>
            nm = name (part_info (stm32image_dev_info_spec s) ! 0) \<and>
            last evs = Log_ERROR ''Partition %s not found'' \<and>
            (\<forall>rc. Ev_register_io_dev_stm32image rc \<notin> set evs) \<and>
            (\<forall>con spec rc written.
               Ev_io_dev_open con spec Ptr_image_dev_handle rc written \<notin> set evs)"
    using lookup_failure_panics [OF run evs] by blast
  have b: "(\<forall>e. Ev_get_partition_entry (name (part_info (stm32image_dev_info_spec s) ! 0)) (Some e)
                 \<notin> set evs) \<longrightarrow>
            r \<noteq> Inr () \<and>
            (\<forall>rc. Ev_register_io_dev_stm32image rc \<notin> set evs) \<and>
            (\<forall>con spec rc written.
               Ev_io_dev_open con spec Ptr_image_dev_handle rc written \<notin> set evs)"
    using container_needs_found [OF run evs] by blast
  from conjI [OF a b] show ?thesis .
qed

text \<open>
  On the harness: the medium has the partitions \<open>A\<close> and \<open>B\<close>, the policy asks for \<open>C\<close>.
  The lookup fails, setup panics, and the container device is neither registered nor opened.
\<close>

theorem missing_partition_is_fatal_witness:
  "stm32mp1_io_setup harness_C emmc_instance_0 (initial_state harness_C []) =
     (Inl Panic, halted_missing) \<and>
   trace halted_missing = trace (initial_state harness_C []) @ trace halted_missing \<and>
   Ev_get_partition_entry ''C'' None \<in> set (trace halted_missing) \<and>
   (\<forall>e. Ev_get_partition_entry (name (part_info (stm32image_dev_info_spec
            (initial_state harness_C [])) ! 0)) (Some e) \<notin> set (trace halted_missing)) \<and>
   last (trace halted_missing) = Log_ERROR ''Partition %s not found'' \<and>
   (Inl Panic :: halt + unit) \<noteq> Inr () \<and>
   (\<forall>rc. Ev_register_io_dev_stm32image rc \<notin> set (trace halted_missing)) \<and>
   (\<forall>con spec rc written.
      Ev_io_dev_open con spec Ptr_image_dev_handle rc written \<notin> set (trace halted_missing))"
proof -
  have h2: "trace halted_missing = trace (initial_state harness_C []) @ trace halted_missing"
    by (simp add: trace_initial_state)
  have h3: "Ev_get_partition_entry ''C'' None \<in> set (trace halted_missing)"
    by (simp add: halted_missing_def)
  have h4: "\<forall>e. Ev_get_partition_entry (name (part_info (stm32image_dev_info_spec
            (initial_state harness_C [])) ! 0)) (Some e) \<notin> set (trace halted_missing)"
    by (simp add: halted_missing_def)
  from missing_partition_is_fatal [OF harness_boot_missing h2, of "''C''"]
       harness_boot_missing h2 h3 h4
  show ?thesis by simp
qed



text \<open>What a successful lookup leaves in the \<^verbatim>\<open>part_info\<close> element.\<close>

lemma found_entry_backfilled:
  fixes E :: "'w env"
  assumes run: "stm32mp1_io_setup E boot_context s = (r, s')"
    and evs: "trace s' = trace s @ evs"
    and found: "Ev_get_partition_entry nm (Some e) \<in> set evs"
  shows "nm = name (part_info (stm32image_dev_info_spec s) ! 0) \<and>
         0 < length (part_info (stm32image_dev_info_spec s')) \<and>
         name (part_info (stm32image_dev_info_spec s') ! 0) = nm \<and>
         part_offset (part_info (stm32image_dev_info_spec s') ! 0) =
           start e mod 2 ^ part_offset_bits E \<and>
         (start e < 2 ^ part_offset_bits E \<longrightarrow>
            part_offset (part_info (stm32image_dev_info_spec s') ! 0) = start e) \<and>
         bkp_offset (part_info (stm32image_dev_info_spec s') ! 0) = 0"
proof (cases "boot_interface_selected boot_context = BOOT_API_CTX_BOOT_INTERFACE_SEL_FLASH_SD E \<or>
              boot_interface_selected boot_context = BOOT_API_CTX_BOOT_INTERFACE_SEL_FLASH_EMMC E")
  case False
  with setup_unrecognised [of boot_context E s] run evs found show ?thesis
    by auto
next
  case rec: True
  from rec obtain l1 l2 where l: "set l1 \<subseteq> range Log_INFO" "set l2 \<subseteq> range Log_INFO"
      "print_boot_device E boot_context = (\<lambda>s. (Inr (), s\<lparr>trace := trace s @ l1\<rparr>))"
      "(if boot_partition_used_toboot boot_context = 1 \<or> boot_partition_used_toboot boot_context = 2
        then emit (Log_INFO ''Boot used partition fsbl%d'') else (ret () :: ('w, unit) prog))
       = (\<lambda>s. (Inr (), s\<lparr>trace := trace s @ l2\<rparr>))"
    by (rule setup_logs)
  define wl where "wl = (if boot_interface_instance boot_context = 1 \<or>
      boot_interface_instance boot_context = 2 \<or> boot_interface_instance boot_context = 3
    then [] else [Log_WARN ''SDMMC instance not found, using default''])"
  have f: "\<And>a b. Ev_get_partition_entry a b \<notin> set l1"
      "\<And>a b. Ev_get_partition_entry a b \<notin> set l2"
      "\<And>a b. Ev_get_partition_entry a b \<notin> set wl"
    using l(1,2) by (auto simp: wl_def)
  have "wp (stm32mp1_io_setup E boot_context)
           (\<lambda>r s'. \<forall>evs. trace s' = trace s @ evs \<longrightarrow>
               Ev_get_partition_entry nm (Some e) \<in> set evs \<longrightarrow>
               nm = name (part_info (stm32image_dev_info_spec s) ! 0) \<and>
               0 < length (part_info (stm32image_dev_info_spec s)) \<and>
               part_info (stm32image_dev_info_spec s') =
                 (part_info (stm32image_dev_info_spec s))
                   [0 := (part_info (stm32image_dev_info_spec s) ! 0)
                      \<lparr>part_offset := start e mod 2 ^ part_offset_bits E, bkp_offset := 0\<rparr>]) s"
    unfolding stm32mp1_io_setup_def io_setup_flash_def l(3,4) base_select pair_if
      wl_def [symmetric]
    using rec
    by (simp add: wp_rules wp_logs wp_base Let_def f set_part_offsets_def
          cong: option.case_cong split del: if_split)
  from wpI [OF run this] evs found show ?thesis by simp
qed

text \<open>
  C7, as the code has it. For every name of the \<^verbatim>\<open>part_info\<close> list whose partition entry
  setup finds, the element of that name ends up with \<^verbatim>\<open>part_offset\<close> holding the entry's
  start converted to the width of that field, which is the start itself whenever it fits,
  and with \<^verbatim>\<open>bkp_offset\<close> 0. Setup does not return, nor register or open the container
  device, without having found the entry and back-filled the element in this way. The list
  has \<^verbatim>\<open>IMG_IDX_NUM\<close> = 1 names, at index 0.
\<close>

theorem partition_offsets_backfilled:
  fixes E :: "'w env"
  assumes run: "stm32mp1_io_setup E boot_context s = (r, s')"
    and evs: "trace s' = trace s @ evs"
  shows "(Ev_get_partition_entry nm (Some e) \<in> set evs \<longrightarrow>
            nm = name (part_info (stm32image_dev_info_spec s) ! 0) \<and>
            0 < length (part_info (stm32image_dev_info_spec s')) \<and>
            name (part_info (stm32image_dev_info_spec s') ! 0) = nm \<and>
            part_offset (part_info (stm32image_dev_info_spec s') ! 0) =
              start e mod 2 ^ part_offset_bits E \<and>
            (start e < 2 ^ part_offset_bits E \<longrightarrow>
               part_offset (part_info (stm32image_dev_info_spec s') ! 0) = start e) \<and>
            bkp_offset (part_info (stm32image_dev_info_spec s') ! 0) = 0) \<and>
         (r = Inr () \<or> (\<exists>rc. Ev_register_io_dev_stm32image rc \<in> set evs) \<or>
          (\<exists>con spec rc written.
             Ev_io_dev_open con spec Ptr_image_dev_handle rc written \<in> set evs) \<longrightarrow>
            (\<exists>e. Ev_get_partition_entry (name (part_info (stm32image_dev_info_spec s) ! 0))
                    (Some e) \<in> set evs \<and>
                 name (part_info (stm32image_dev_info_spec s') ! 0) =
                   name (part_info (stm32image_dev_info_spec s) ! 0) \<and>
                 part_offset (part_info (stm32image_dev_info_spec s') ! 0) =
                   start e mod 2 ^ part_offset_bits E \<and>
                 bkp_offset (part_info (stm32image_dev_info_spec s') ! 0) = 0))"
proof -
  have a: "Ev_get_partition_entry nm (Some e) \<in> set evs \<longrightarrow>
            nm = name (part_info (stm32image_dev_info_spec s) ! 0) \<and>
            0 < length (part_info (stm32image_dev_info_spec s')) \<and>
            name (part_info (stm32image_dev_info_spec s') ! 0) = nm \<and>
            part_offset (part_info (stm32image_dev_info_spec s') ! 0) =
              start e mod 2 ^ part_offset_bits E \<and>
            (start e < 2 ^ part_offset_bits E \<longrightarrow>
               part_offset (part_info (stm32image_dev_info_spec s') ! 0) = start e) \<and>
            bkp_offset (part_info (stm32image_dev_info_spec s') ! 0) = 0"
    using found_entry_backfilled [OF run evs] by blast
  have b: "r = Inr () \<or> (\<exists>rc. Ev_register_io_dev_stm32image rc \<in> set evs) \<or>
          (\<exists>con spec rc written.
             Ev_io_dev_open con spec Ptr_image_dev_handle rc written \<in> set evs) \<longrightarrow>
            (\<exists>e. Ev_get_partition_entry (name (part_info (stm32image_dev_info_spec s) ! 0))
                    (Some e) \<in> set evs \<and>
                 name (part_info (stm32image_dev_info_spec s') ! 0) =
                   name (part_info (stm32image_dev_info_spec s) ! 0) \<and>
                 part_offset (part_info (stm32image_dev_info_spec s') ! 0) =
                   start e mod 2 ^ part_offset_bits E \<and>
                 bkp_offset (part_info (stm32image_dev_info_spec s') ! 0) = 0)"
  proof
    assume "r = Inr () \<or> (\<exists>rc. Ev_register_io_dev_stm32image rc \<in> set evs) \<or>
          (\<exists>con spec rc written.
             Ev_io_dev_open con spec Ptr_image_dev_handle rc written \<in> set evs)"
    from container_needs_found [OF run evs this] obtain e0 where
      e0: "Ev_get_partition_entry (name (part_info (stm32image_dev_info_spec s) ! 0)) (Some e0)
             \<in> set evs"
      by blast
    from found_entry_backfilled [OF run evs e0] e0
    show "\<exists>e. Ev_get_partition_entry (name (part_info (stm32image_dev_info_spec s) ! 0))
                 (Some e) \<in> set evs \<and>
              name (part_info (stm32image_dev_info_spec s') ! 0) =
                name (part_info (stm32image_dev_info_spec s) ! 0) \<and>
              part_offset (part_info (stm32image_dev_info_spec s') ! 0) =
                start e mod 2 ^ part_offset_bits E \<and>
              bkp_offset (part_info (stm32image_dev_info_spec s') ! 0) = 0"
      by blast
  qed
  from conjI [OF a b] show ?thesis .
qed

text \<open>
  On the harness: the table has \<open>A\<close> at 100 and \<open>B\<close> at 500, the policy asks for \<open>A\<close>.
\<close>

theorem partition_offsets_backfilled_witness:
  "stm32mp1_io_setup harness_A sd_instance_1 (initial_state harness_A []) = (Inr (), booted) \<and>
   trace booted = trace (initial_state harness_A []) @ trace booted \<and>
   Ev_get_partition_entry ''A'' (Some \<lparr> entry_name = ''A'', start = 100 \<rparr>) \<in> set (trace booted) \<and>
   (100::nat) < 2 ^ part_offset_bits harness_A \<and>
   part_offset (part_info (stm32image_dev_info_spec booted) ! 0) = 100 \<and>
   bkp_offset (part_info (stm32image_dev_info_spec booted) ! 0) = 0"
proof -
  have h2: "trace booted = trace (initial_state harness_A []) @ trace booted"
    by (simp add: trace_initial_state)
  have h3: "Ev_get_partition_entry ''A'' (Some \<lparr> entry_name = ''A'', start = 100 \<rparr>)
              \<in> set (trace booted)"
    by (simp add: booted_def)
  have h4: "(100::nat) < 2 ^ part_offset_bits harness_A"
    by (simp add: harness_A_def harness_consts)
  from partition_offsets_backfilled
         [OF harness_boot_sd h2, of "''A''" "\<lparr> entry_name = ''A'', start = 100 \<rparr>"]
       harness_boot_sd h2 h3 h4
  show ?thesis by simp
qed

text \<open>
  C7 as stated fails on the harness, whose \<^verbatim>\<open>part_offset\<close> is 32 bits wide, at a partition
  that starts at \<open>2 ^ 32 + 100\<close>: setup returns with the back-filled offset 100, which is
  not the start of the partition.
\<close>

theorem partition_offset_truncated_counterexample:
  "stm32mp1_io_setup harness_big sd_instance_1 (initial_state harness_big []) =
     (Inr (), booted_big) \<and>
   Ev_get_partition_entry ''A'' (Some \<lparr> entry_name = ''A'', start = 2 ^ 32 + 100 \<rparr>)
     \<in> set (trace booted_big) \<and>
   part_offset (part_info (stm32image_dev_info_spec booted_big) ! 0) = 100 \<and>
   part_offset (part_info (stm32image_dev_info_spec booted_big) ! 0) \<noteq> 2 ^ 32 + 100"
  using harness_boot_big by (simp add: booted_big_def)

subsection \<open>\<^verbatim>\<open>stm32mp1_io_setup\<close> on an unrecognised boot interface\<close>

lemma call_check_trace:
  "fst (call_check E c spec (s\<lparr>trace := t\<rparr>)) = fst (call_check E c spec s)"
  "read_handle p (snd (call_check E c spec (s\<lparr>trace := t\<rparr>))) =
     read_handle p (snd (call_check E c spec s))"
  by (cases "(E, c, spec)" rule: call_check.cases; cases p;
      simp add: stop_def open_dummy_def open_image_def open_storage_def call_io_dev_init_def
           split: prod.splits)+

lemma plat_get_image_source_trace:
  "fst (plat_get_image_source E image_id dh sp (s\<lparr>trace := t\<rparr>)) =
   fst (plat_get_image_source E image_id dh sp s)"
proof (cases "image_id < ARRAY_SIZE (policies E)")
  case False
  then show ?thesis
    by (simp add: plat_get_image_source_def bind_def c_assert_def stop_def)
next
  case True
  let ?pol = "policies E ! image_id"
  obtain r1 s1 where c1:
    "call_check E (check ?pol) (image_spec ?pol) (s\<lparr>trace := t\<rparr>) = (r1, s1)"
    by force
  obtain r2 s2 where c2: "call_check E (check ?pol) (image_spec ?pol) s = (r2, s2)"
    by force
  from call_check_trace(1) [of E "check ?pol" "image_spec ?pol" t s] c1 c2
  have r: "r1 = r2" by simp
  have h: "read_handle p s1 = read_handle p s2" for p
    using call_check_trace(2) [of p E "check ?pol" "image_spec ?pol" t s] c1 c2 by simp
  from True c1 c2 r h show ?thesis
    by (cases r1; cases "dev_handle ?pol")
       (auto simp: plat_get_image_source_def bind_def c_assert_def ret_def stop_def Let_def)
qed

text \<open>
  C2, as the code has it. When the interface kind of the boot context is neither SD nor
  eMMC, setup reports that the boot interface is not found and halts by \<^verbatim>\<open>panic\<close>: it
  does not return, the report is its only event, so that no peripheral is brought up, and
  the handle of the fixed-offset device keeps the value it had.
\<close>

theorem unsupported_interface_halts:
  assumes "boot_interface_selected boot_context \<noteq> BOOT_API_CTX_BOOT_INTERFACE_SEL_FLASH_SD E"
    and "boot_interface_selected boot_context \<noteq> BOOT_API_CTX_BOOT_INTERFACE_SEL_FLASH_EMMC E"
  shows "fst (stm32mp1_io_setup E boot_context s) = Inl Panic \<and>
         trace (snd (stm32mp1_io_setup E boot_context s)) =
           trace s @ [Log_ERROR ''Boot interface not found''] \<and>
         dummy_dev_handle (snd (stm32mp1_io_setup E boot_context s)) = dummy_dev_handle s"
  using setup_unrecognised [OF assms, of s] by simp

text \<open>On the harness, interface kind 3, from the booted state.\<close>

theorem unsupported_interface_halts_witness:
  "boot_interface_selected unknown_interface \<noteq> BOOT_API_CTX_BOOT_INTERFACE_SEL_FLASH_SD harness_A \<and>
   boot_interface_selected unknown_interface \<noteq> BOOT_API_CTX_BOOT_INTERFACE_SEL_FLASH_EMMC harness_A \<and>
   fst (stm32mp1_io_setup harness_A unknown_interface booted) = Inl Panic \<and>
   trace (snd (stm32mp1_io_setup harness_A unknown_interface booted)) =
     trace booted @ [Log_ERROR ''Boot interface not found''] \<and>
   dummy_dev_handle (snd (stm32mp1_io_setup harness_A unknown_interface booted)) = 0x101"
proof -
  have h1: "boot_interface_selected unknown_interface \<noteq>
              BOOT_API_CTX_BOOT_INTERFACE_SEL_FLASH_SD harness_A"
    by (simp add: unknown_interface_def harness_A_def harness_consts)
  have h2: "boot_interface_selected unknown_interface \<noteq>
              BOOT_API_CTX_BOOT_INTERFACE_SEL_FLASH_EMMC harness_A"
    by (simp add: unknown_interface_def harness_A_def harness_consts)
  from unsupported_interface_halts [OF h1 h2, of booted] h1 h2 show ?thesis
    by (simp add: booted_def)
qed

text \<open>
  C2 as stated fails on the harness at interface kind 3: setup does not return, it never
  reports \<open>Boot interface %d not supported\<close>, and BL2, which is bound to the fixed-offset
  device, does not resolve afterwards, since that device was never opened.
\<close>

theorem unsupported_interface_counterexample:
  "stm32mp1_io_setup harness_A unknown_interface (initial_state harness_A []) =
     (Inl Panic,
      (initial_state harness_A [])\<lparr>trace := [Log_ERROR ''Boot interface not found'']\<rparr>) \<and>
   Log_ERROR ''Boot interface %d not supported'' \<notin>
     set (trace (snd (stm32mp1_io_setup harness_A unknown_interface (initial_state harness_A [])))) \<and>
   fst (plat_get_image_source harness_A 1 7 9
          (snd (stm32mp1_io_setup harness_A unknown_interface (initial_state harness_A [])))) =
     Inr (- 19, 7, 9)"
proof -
  have run: "stm32mp1_io_setup harness_A unknown_interface (initial_state harness_A []) =
     (Inl Panic,
      (initial_state harness_A [])\<lparr>trace := [Log_ERROR ''Boot interface not found'']\<rparr>)"
    by (simp add: stm32mp1_io_setup_def print_boot_device_def seq_def bind_def emit_def
          panic_def stop_def unknown_interface_def harness_A_def harness_consts initial_state_def)
  have "fst (plat_get_image_source harness_A 1 7 9 (initial_state harness_A [])) =
          Inr (- 19, 7, 9)"
    by (simp add: plat_get_image_source_def bind_def c_assert_def ret_def Let_def
          harness_A_def harness_policies_size harness_policy_bl2 open_dummy_def
          call_io_dev_init_def harness_io_dev_init initial_state_def)
  with run show ?thesis
    by (simp add: plat_get_image_source_trace)
qed

text \<open>
  C10. When the interface kind of the boot context is neither SD nor eMMC,
  \<^verbatim>\<open>print_boot_device\<close> panics, and setup with it, after the error report and nothing
  else: no device is registered or opened, every variable of the file keeps its value, and
  every image identifier resolves after the failed setup exactly as it did before.
\<close>

theorem unrecognised_interface_panics_before_any_device:
  assumes "boot_interface_selected boot_context \<noteq> BOOT_API_CTX_BOOT_INTERFACE_SEL_FLASH_SD E"
    and "boot_interface_selected boot_context \<noteq> BOOT_API_CTX_BOOT_INTERFACE_SEL_FLASH_EMMC E"
  shows "print_boot_device E boot_context s =
           (Inl Panic, s\<lparr>trace := trace s @ [Log_ERROR ''Boot interface not found'']\<rparr>) \<and>
         stm32mp1_io_setup E boot_context s =
           (Inl Panic, s\<lparr>trace := trace s @ [Log_ERROR ''Boot interface not found'']\<rparr>) \<and>
         (\<forall>image_id dh sp.
            fst (plat_get_image_source E image_id dh sp
                   (snd (stm32mp1_io_setup E boot_context s))) =
            fst (plat_get_image_source E image_id dh sp s))"
  using setup_unrecognised [OF assms, of s]
  by (simp add: plat_get_image_source_trace)

text \<open>On the harness, interface kind 3, from the initial state.\<close>

theorem unrecognised_interface_panics_before_any_device_witness:
  "boot_interface_selected unknown_interface \<noteq> BOOT_API_CTX_BOOT_INTERFACE_SEL_FLASH_SD harness_C \<and>
   boot_interface_selected unknown_interface \<noteq> BOOT_API_CTX_BOOT_INTERFACE_SEL_FLASH_EMMC harness_C \<and>
   print_boot_device harness_C unknown_interface (initial_state harness_C []) =
     (Inl Panic,
      (initial_state harness_C [])\<lparr>trace := [Log_ERROR ''Boot interface not found'']\<rparr>) \<and>
   stm32mp1_io_setup harness_C unknown_interface (initial_state harness_C []) =
     (Inl Panic,
      (initial_state harness_C [])\<lparr>trace := [Log_ERROR ''Boot interface not found'']\<rparr>) \<and>
   fst (plat_get_image_source harness_C 1 7 9
          (snd (stm32mp1_io_setup harness_C unknown_interface (initial_state harness_C [])))) =
     fst (plat_get_image_source harness_C 1 7 9 (initial_state harness_C []))"
proof -
  have h1: "boot_interface_selected unknown_interface \<noteq>
              BOOT_API_CTX_BOOT_INTERFACE_SEL_FLASH_SD harness_C"
    by (simp add: unknown_interface_def harness_C_def harness_consts)
  have h2: "boot_interface_selected unknown_interface \<noteq>
              BOOT_API_CTX_BOOT_INTERFACE_SEL_FLASH_EMMC harness_C"
    by (simp add: unknown_interface_def harness_C_def harness_consts)
  note run = unrecognised_interface_panics_before_any_device
               [OF h1 h2, of "initial_state harness_C []"]
  from run have a:
    "print_boot_device harness_C unknown_interface (initial_state harness_C []) =
       (Inl Panic,
        (initial_state harness_C [])\<lparr>trace := [Log_ERROR ''Boot interface not found'']\<rparr>)"
    by (simp add: trace_initial_state)
  from run have b:
    "stm32mp1_io_setup harness_C unknown_interface (initial_state harness_C []) =
       (Inl Panic,
        (initial_state harness_C [])\<lparr>trace := [Log_ERROR ''Boot interface not found'']\<rparr>)"
    by (simp add: trace_initial_state)
  from run have c:
    "fst (plat_get_image_source harness_C 1 7 9
            (snd (stm32mp1_io_setup harness_C unknown_interface (initial_state harness_C [])))) =
     fst (plat_get_image_source harness_C 1 7 9 (initial_state harness_C []))"
    by blast
  from h1 h2 a b c show ?thesis by blast
qed

end
